theory Spec2Isabelle
  imports Complex_Main "HOL-Library.Word" "HOL-Library.FSet" "HOL-Library.Char_ord"
    "HOL-Library.List_Lexorder"
begin

unbundle bit_operations_syntax

section \<open>Data model\<close>

text \<open>
  The exceptions the code can raise, as values. \<open>LsstException\<close> carries the formatted
  message of \<^verbatim>\<open>raise pexExcept.LsstException, '...' % (...)\<close>. \<open>LengthError\<close> and
  \<open>InvalidParameterError\<close> are the exceptions of the image library (a box that does not
  fit its image, statistics over no pixels, an unknown mask plane); \<open>RuntimeError\<close> is
  the library's when no mask plane is free. \<open>NameError\<close>,
  \<open>TypeError\<close>, \<open>ZeroDivisionError\<close> and \<open>AttributeError\<close> are Python's own.
\<close>

datatype error =
    LsstException string
  | LengthError
  | InvalidParameterError
  | NameError string
  | TypeError string
  | ZeroDivisionError
  | AttributeError string
  | RuntimeError string

text \<open>
  A plane is a list of rows, row \<open>y\<close> first, each row a list of pixels, column \<open>x\<close>
  first. Image and variance pixels (\<^verbatim>\<open>ImageF\<close>) are rationals here and the arithmetic
  on them is exact; the rounding of the 32-bit floats is modelled only where a section says
  so (the overscan subtraction on float pixels). Mask pixels (\<^verbatim>\<open>MaskU\<close>) are 16-bit
  words. Pixel coordinates are the plane's own, counted from \<open>(0, 0)\<close>.
\<close>

type_synonym 'a Image = "'a list list"

definition getHeight :: "'a Image \<Rightarrow> nat" where
  "getHeight im = length im"

definition getWidth :: "'a Image \<Rightarrow> nat" where
  "getWidth im = (case im of [] \<Rightarrow> 0 | r # _ \<Rightarrow> length r)"

definition rectangular :: "'a Image \<Rightarrow> bool" where
  "rectangular im = (\<forall>r \<in> set im. length r = getWidth im)"

definition getPixel :: "'a Image \<Rightarrow> nat \<Rightarrow> nat \<Rightarrow> 'a" where
  "getPixel im x y = im ! y ! x"

definition hasPixel :: "'a Image \<Rightarrow> nat \<Rightarrow> nat \<Rightarrow> bool" where
  "hasPixel im x y = (y < length im \<and> x < length (im ! y))"

record Mask =
  getMaskPlaneDict :: "(string \<times> nat) list"
  getArray :: "16 word Image"

record MaskedImage =
  getImage :: "rat Image"
  getMask :: Mask
  getVariance :: "rat Image"

record Exposure =
  getMaskedImage :: MaskedImage

text \<open>\<^verbatim>\<open>afwGeom.Box2I\<close>: an integer rectangle with inclusive corners.\<close>

record Box2I =
  getMinX :: int
  getMinY :: int
  getMaxX :: int
  getMaxY :: int

definition isEmpty :: "Box2I \<Rightarrow> bool" where
  "isEmpty b = (getMaxX b < getMinX b \<or> getMaxY b < getMinY b)"

definition boxContains :: "Box2I \<Rightarrow> int \<Rightarrow> int \<Rightarrow> bool" where
  "boxContains b x y = (getMinX b \<le> x \<and> x \<le> getMaxX b \<and> getMinY b \<le> y \<and> y \<le> getMaxY b)"

definition fitsIn :: "Box2I \<Rightarrow> 'a Image \<Rightarrow> bool" where
  "fitsIn b im = (0 \<le> getMinX b \<and> getMaxX b < int (getWidth im) \<and>
                  0 \<le> getMinY b \<and> getMaxY b < int (getHeight im))"

text \<open>
  \<^verbatim>\<open>afwImage.ImageF(image, bbox, False)\<close>: the pixels of \<open>image\<close> inside \<open>bbox\<close>. The
  library raises \<open>LengthError\<close> when the box does not fit in the image. The view shares
  the parent's pixels; it is only read below, so the model copies them.
\<close>

definition subImage :: "'a Image \<Rightarrow> Box2I \<Rightarrow> error + 'a Image" where
  "subImage im b =
     (if isEmpty b then Inr []
      else if fitsIn b im then
        Inr (map (\<lambda>r. take (nat (getMaxX b - getMinX b + 1)) (drop (nat (getMinX b)) r))
               (take (nat (getMaxY b - getMinY b + 1)) (drop (nat (getMinY b)) im)))
      else Inl LengthError)"

section \<open>Statistics over a plane\<close>

text \<open>
  Modelled from the spec: \<^verbatim>\<open>afwMath.makeStatistics\<close> is the image library's, not a file of
  this repository. The spec (section 4.1) asks for the standard mean, the conventional
  median (the two middle values averaged when the count is even), and an iterative
  sigma-clipped mean: each iteration computes the mean and the unbiased standard
  deviation of the included pixels and excludes those with
  \<open>|pixel - mean| > nSigma * stdev\<close>, up to \<open>nIter\<close> times or until none is newly excluded.
  The comparison is written on the squares, \<open>(pixel - mean)\<^sup>2 > nSigma\<^sup>2 * variance\<close>, which
  is the same for \<open>nSigma \<ge> 0\<close> and needs no square root.
\<close>

definition mean :: "rat list \<Rightarrow> rat" where
  "mean xs = sum_list xs / of_nat (length xs)"

definition median :: "rat list \<Rightarrow> rat" where
  "median xs =
     (let s = sort xs; n = length s
      in if odd n then s ! (n div 2) else (s ! (n div 2 - 1) + s ! (n div 2)) / 2)"

definition sampleVariance :: "rat list \<Rightarrow> rat" where
  "sampleVariance xs =
     (let m = mean xs in sum_list (map (\<lambda>x. (x - m)\<^sup>2) xs) / of_nat (length xs - 1))"

definition clipOnce :: "rat \<Rightarrow> rat list \<Rightarrow> rat list" where
  "clipOnce nSigma xs =
     (let m = mean xs; v = sampleVariance xs
      in filter (\<lambda>x. \<not> (x - m)\<^sup>2 > nSigma\<^sup>2 * v) xs)"

fun clipped :: "nat \<Rightarrow> rat \<Rightarrow> rat list \<Rightarrow> rat list" where
  "clipped 0 nSigma xs = xs"
| "clipped (Suc n) nSigma xs =
     (let ys = clipOnce nSigma xs
      in if length ys = length xs then xs else clipped n nSigma ys)"

definition clippedMean :: "nat \<Rightarrow> rat \<Rightarrow> rat list \<Rightarrow> rat" where
  "clippedMean nIter nSigma xs = mean (clipped nIter nSigma xs)"

datatype Property = MEAN | MEDIAN | MEANCLIP

text \<open>
  \<^verbatim>\<open>afwMath.makeStatistics(image, property).getValue()\<close> over all the pixels of a plane.
  The library refuses an image with no pixels. The clipped mean runs with the library's
  default control: three iterations at three sigma.
\<close>

definition makeStatistics :: "rat Image \<Rightarrow> Property \<Rightarrow> error + rat" where
  "makeStatistics im property =
     (if concat im = [] then Inl InvalidParameterError
      else Inr (case property of
                  MEAN \<Rightarrow> mean (concat im)
                | MEDIAN \<Rightarrow> median (concat im)
                | MEANCLIP \<Rightarrow> clippedMean 3 3 (concat im)))"

section \<open>Overscan correction\<close>

text \<open>
  Modelled from the spec: \<^verbatim>\<open>mi -= offset\<close> on a masked image and a scalar is the image
  library's operator, not a file of this repository. The spec (section 4.2, apply)
  subtracts the value from every pixel of the image plane in place and modifies neither
  the mask nor the variance.
\<close>

definition minusScalar :: "MaskedImage \<Rightarrow> rat \<Rightarrow> MaskedImage" where
  "minusScalar mi offset = mi\<lparr>getImage := map (map (\<lambda>p. p - offset)) (getImage mi)\<rparr>"

text \<open>
  \<^verbatim>\<open>overscanCorrection(exposure, overscanBBox, fittype, overscanKeyword='overscan',
  polyorder=1)\<close> of \<^verbatim>\<open>isr.py\<close>. The result is the exposure after the call, or the
  exception raised; nothing is written to the exposure before a raise.
\<close>

definition overscanCorrection ::
  "Exposure \<Rightarrow> Box2I \<Rightarrow> string \<Rightarrow> string \<Rightarrow> int \<Rightarrow> error + Exposure" where
  "overscanCorrection exposure overscanBBox fittype overscanKeyword polyorder =
     (let mi = getMaskedImage exposure in
      case subImage (getImage mi) overscanBBox of
        Inl e \<Rightarrow> Inl e
      | Inr overscanData \<Rightarrow>
          if fittype = ''MEAN'' then
            (case makeStatistics overscanData MEAN of
               Inl e \<Rightarrow> Inl e
             | Inr offset \<Rightarrow> Inr (exposure\<lparr>getMaskedImage := minusScalar mi offset\<rparr>))
          else if fittype = ''MEDIAN'' then
            (case makeStatistics overscanData MEDIAN of
               Inl e \<Rightarrow> Inl e
             | Inr offset \<Rightarrow> Inr (exposure\<lparr>getMaskedImage := minusScalar mi offset\<rparr>))
          else if fittype = ''POLY'' then
            Inl (LsstException (''overscanCorrection'' @ '' : '' @ fittype @ '' not implemented''))
          else
            Inl (LsstException
                   (''overscanCorrection'' @ '' : '' @ fittype @ '' an invalid overscan type'')))"


section \<open>Overscan correction on 32-bit float pixels\<close>

text \<open>
  The image plane of an exposure is an \<^verbatim>\<open>ImageF\<close> (\<^verbatim>\<open>isr.py\<close> cuts the overscan out
  of it with \<^verbatim>\<open>afwImage.ImageF(...)\<close>, the tests build \<^verbatim>\<open>MaskedImageF\<close>): every pixel is
  an IEEE 754 single-precision float, and a value written to the plane is rounded to the
  nearest such float, a tie going to the even significand. \<open>binade x\<close> is the exponent
  \<open>e\<close> with \<open>2 ^ e \<le> |x| < 2 ^ (e + 1)\<close>, kept between \<open>-126\<close> (the subnormal floats have
  the spacing of the lowest binade) and 127; the floats of that binade are the multiples
  of \<open>2 ^ (e - 23)\<close>, and \<open>fl32 x\<close> is the multiple nearest to \<open>x\<close>. A value that
  rounds to \<open>2 ^ 128\<close> or beyond is stored by the code as an infinity, which a rational
  pixel cannot hold: \<open>fl32\<close> is the rounding of the code only below that, and
  \<open>float32 x\<close> says that \<open>x\<close> is the value of a finite float.
\<close>

definition roundHalfEven :: "rat \<Rightarrow> int" where
  "roundHalfEven r =
     (let f = \<lfloor>r\<rfloor>; d = r - of_int f
      in if d < 1 / 2 then f else if 1 / 2 < d then f + 1 else if even f then f else f + 1)"

definition binade :: "rat \<Rightarrow> int" where
  "binade x =
     (case find (\<lambda>e. 2 powi e \<le> \<bar>x\<bar>) (rev [-126..127]) of None \<Rightarrow> -126 | Some e \<Rightarrow> e)"

definition fl32 :: "rat \<Rightarrow> rat" where
  "fl32 x = (let q = 2 powi (binade x - 23) in of_int (roundHalfEven (x / q)) * q)"

definition float32 :: "rat \<Rightarrow> bool" where
  "float32 x = (\<bar>x\<bar> < 2 ^ 128 \<and> fl32 x = x)"

text \<open>
  Modelled from the spec: \<^verbatim>\<open>mi -= offset\<close> as the image library runs it on an
  \<^verbatim>\<open>ImageF\<close> plane. The operator is the one of the section above (the spec's apply:
  the value is subtracted from every pixel of the image plane, mask and variance stay);
  its scalar argument has the pixel type, so the Python float \<open>offset\<close> is first rounded to
  a 32-bit float, and each difference is stored rounded.
\<close>

definition minusScalarF :: "MaskedImage \<Rightarrow> rat \<Rightarrow> MaskedImage" where
  "minusScalarF mi offset =
     mi\<lparr>getImage := map (map (\<lambda>p. fl32 (p - fl32 offset))) (getImage mi)\<rparr>"

text \<open>
  \<^verbatim>\<open>overscanCorrection\<close> of \<^verbatim>\<open>isr.py\<close> once more, line by line as above, with the
  subtraction on float pixels. The statistic is accumulated by the library in double
  precision; the model keeps the exact mean and median, which is what the library
  returns over a region of equal pixels.
\<close>

definition overscanCorrectionF ::
  "Exposure \<Rightarrow> Box2I \<Rightarrow> string \<Rightarrow> string \<Rightarrow> int \<Rightarrow> error + Exposure" where
  "overscanCorrectionF exposure overscanBBox fittype overscanKeyword polyorder =
     (let mi = getMaskedImage exposure in
      case subImage (getImage mi) overscanBBox of
        Inl e \<Rightarrow> Inl e
      | Inr overscanData \<Rightarrow>
          if fittype = ''MEAN'' then
            (case makeStatistics overscanData MEAN of
               Inl e \<Rightarrow> Inl e
             | Inr offset \<Rightarrow> Inr (exposure\<lparr>getMaskedImage := minusScalarF mi offset\<rparr>))
          else if fittype = ''MEDIAN'' then
            (case makeStatistics overscanData MEDIAN of
               Inl e \<Rightarrow> Inl e
             | Inr offset \<Rightarrow> Inr (exposure\<lparr>getMaskedImage := minusScalarF mi offset\<rparr>))
          else if fittype = ''POLY'' then
            Inl (LsstException (''overscanCorrection'' @ '' : '' @ fittype @ '' not implemented''))
          else
            Inl (LsstException
                   (''overscanCorrection'' @ '' : '' @ fittype @ '' an invalid overscan type'')))"
section \<open>The scenarios of the overscan tests\<close>

text \<open>
  The planes that \<^verbatim>\<open>test_overscanCorrection.py\<close> builds: a masked image set to
  \<open>(10, 0x0, 1)\<close> whose overscan strip is then overwritten. In \<open>overscanExposureY\<close> the
  strip is the rows 10 to 12 of a plane 10 wide and 13 high, set to 2. In \<open>polyExposureX\<close>
  it is the columns 10 to 12 of a plane 13 wide and 10 high, and row \<open>i\<close> of the strip
  holds \<open>2 + i - 0.5\<close>, \<open>2 + i\<close>, \<open>2 + i + 0.5\<close>. The mask planes are the library's
  default registry.
\<close>

definition defaultMaskPlaneDict :: "(string \<times> nat) list" where
  "defaultMaskPlaneDict =
     [(''BAD'', 0), (''SAT'', 1), (''INTRP'', 2), (''CR'', 3), (''EDGE'', 4),
      (''DETECTED'', 5), (''DETECTED_NEGATIVE'', 6), (''SUSPECT'', 7), (''NO_DATA'', 8)]"

definition makeExposure :: "rat Image \<Rightarrow> Exposure" where
  "makeExposure im =
     \<lparr>getMaskedImage =
        \<lparr>getImage = im,
         getMask = \<lparr>getMaskPlaneDict = defaultMaskPlaneDict,
                    getArray = map (map (\<lambda>p. 0)) im\<rparr>,
         getVariance = map (map (\<lambda>p. 1)) im\<rparr>\<rparr>"

definition overscanExposureY :: Exposure where
  "overscanExposureY = makeExposure (replicate 10 (replicate 10 10) @ replicate 3 (replicate 10 2))"

definition overscanBBoxY :: Box2I where
  "overscanBBoxY = \<lparr>getMinX = 0, getMinY = 10, getMaxX = 9, getMaxY = 12\<rparr>"

definition dataBBox :: Box2I where
  "dataBBox = \<lparr>getMinX = 0, getMinY = 0, getMaxX = 9, getMaxY = 9\<rparr>"

definition polyExposureX :: Exposure where
  "polyExposureX =
     makeExposure (map (\<lambda>i. replicate 10 10 @ [2 + of_nat i - 1/2, 2 + of_nat i, 2 + of_nat i + 1/2])
                       [0..<10])"

definition overscanBBoxX :: Box2I where
  "overscanBBoxX = \<lparr>getMinX = 10, getMinY = 0, getMaxX = 12, getMaxY = 9\<rparr>"

text \<open>
  A plane, 2 wide and 3 high, whose data rows hold \<open>2 ^ 24\<close> and whose overscan row holds
  \<open>1/2\<close>: both are 32-bit floats, their difference is not.
\<close>

definition roundingExposure :: Exposure where
  "roundingExposure = makeExposure (replicate 2 (replicate 2 16777216) @ [replicate 2 (1 / 2)])"

definition roundingOverscanBBox :: Box2I where
  "roundingOverscanBBox = \<lparr>getMinX = 0, getMinY = 2, getMaxX = 1, getMaxY = 2\<rparr>"
section \<open>Flat-field correction\<close>







section \<open>Mask planes\<close>

text \<open>
  \<^verbatim>\<open>mask.getPlaneBitMask(name)\<close>: the bit of a named plane of the registry, refused with
  \<open>InvalidParameterError\<close> for a name the registry does not hold.
\<close>

definition getPlaneBitMask :: "Mask \<Rightarrow> string \<Rightarrow> error + 16 word" where
  "getPlaneBitMask m name =
     (case map_of (getMaskPlaneDict m) name of
        None \<Rightarrow> Inl InvalidParameterError
      | Some i \<Rightarrow> Inr (push_bit i 1))"

text \<open>The pixels of a plane with their coordinates, \<open>(x, y, pixel)\<close>, row by row.\<close>

definition pixelsWithXY :: "'a Image \<Rightarrow> (nat \<times> nat \<times> 'a) list" where
  "pixelsWithXY im =
     concat (map (\<lambda>(y, r). map (\<lambda>(x, p). (x, y, p)) (enumerate 0 r)) (enumerate 0 im))"

section \<open>Defect interpolation\<close>

text \<open>
  \<^verbatim>\<open>createPsf(fwhm)\<close> of \<^verbatim>\<open>isr.py\<close>. Python's \<^verbatim>\<open>int\<close> truncates towards zero. The
  kernel itself is built by the detection library from the arguments recorded here: the
  model name and the kernel's width and height. The fourth argument, the Gaussian's sigma
  \<^verbatim>\<open>fwhm/(2*math.sqrt(2*math.log(2)))\<close>, is an irrational multiple of \<open>fwhm\<close>; the
  record keeps the \<open>fwhm\<close> it is computed from.
\<close>

record Psf =
  psfName :: string
  psfWidth :: int
  psfHeight :: int
  psfFwhm :: rat

definition pyInt :: "rat \<Rightarrow> int" where
  "pyInt v = (if 0 \<le> v then \<lfloor>v\<rfloor> else \<lceil>v\<rceil>)"

definition createPsf :: "rat \<Rightarrow> Psf" where
  "createPsf fwhm =
     (let ksize = 4 * pyInt fwhm + 1
      in \<lparr>psfName = ''DoubleGaussian'', psfWidth = ksize, psfHeight = ksize,
          psfFwhm = fwhm\<rparr>)"

datatype Defect = Defect Box2I

fun getBBox :: "Defect \<Rightarrow> Box2I" where
  "getBBox (Defect b) = b"

text \<open>
  \<^verbatim>\<open>interpolateDefectList(exposure, defectList, fwhm, fallbackValue=None)\<close> of \<^verbatim>\<open>isr.py\<close>.
  \<^verbatim>\<open>algorithms.interpolateOverDefects\<close> is the measurement library's; it is the parameter
  \<open>interpolateOverDefects\<close> here, a function from the masked image, the PSF, the defects
  and the fallback value to the interpolated masked image or an exception.
\<close>

definition interpolateDefectList ::
  "(MaskedImage \<Rightarrow> Psf \<Rightarrow> Defect list \<Rightarrow> rat \<Rightarrow> error + MaskedImage) \<Rightarrow>
   Exposure \<Rightarrow> Defect list \<Rightarrow> rat \<Rightarrow> rat option \<Rightarrow> error + Exposure" where
  "interpolateDefectList interpolateOverDefects exposure defectList fwhm fallbackValue =
     (let mi = getMaskedImage exposure;
          psf = createPsf fwhm
      in case (case fallbackValue of
                 None \<Rightarrow> makeStatistics (getImage mi) MEANCLIP
               | Some v \<Rightarrow> Inr v) of
           Inl e \<Rightarrow> Inl e
         | Inr fallback \<Rightarrow>
             (case interpolateOverDefects mi psf defectList fallback of
                Inl e \<Rightarrow> Inl e
              | Inr mi' \<Rightarrow> Inr (exposure\<lparr>getMaskedImage := mi'\<rparr>)))"

text \<open>
  Modelled from the spec: the unconstrained case of the interpolator (section 4.4): a
  defect pixel with no valid neighbour within the kernel's support takes the fallback
  value. \<open>fallbackFill\<close> does this to every pixel of every defect box; it stands for the
  library's interpolator on planes whose defects span whole rows.
\<close>

definition inDefects :: "Defect list \<Rightarrow> nat \<Rightarrow> nat \<Rightarrow> bool" where
  "inDefects defectList x y = (\<exists>d \<in> set defectList. boxContains (getBBox d) (int x) (int y))"

definition fallbackFill :: "MaskedImage \<Rightarrow> Psf \<Rightarrow> Defect list \<Rightarrow> rat \<Rightarrow> error + MaskedImage" where
  "fallbackFill mi psf defectList fallback =
     Inr (mi\<lparr>getImage :=
            map (\<lambda>(y, r). map (\<lambda>(x, p). if inDefects defectList x y then fallback else p)
                             (enumerate 0 r))
                (enumerate 0 (getImage mi))\<rparr>)"

text \<open>
  The fallback value in the words of the spec (section 4.4): the clipped mean of the
  image plane "excluding defect/bad/saturated pixels", that is, of the pixels that lie in
  no defect box and carry neither the \<open>BAD\<close> nor the \<open>SAT\<close> bit.
\<close>

definition spec_fallbackValue :: "Exposure \<Rightarrow> Defect list \<Rightarrow> error + rat" where
  "spec_fallbackValue exposure defectList =
     (let mi = getMaskedImage exposure in
      (case getPlaneBitMask (getMask mi) ''BAD'' of
         Inl e \<Rightarrow> Inl e
       | Inr bad \<Rightarrow>
          (case getPlaneBitMask (getMask mi) ''SAT'' of
             Inl e \<Rightarrow> Inl e
           | Inr sat \<Rightarrow>
               Inr (clippedMean 3 3
                      (map (\<lambda>((x, y, p), (_, _, m)). p)
                         (filter (\<lambda>((x, y, p), (_, _, m)).
                                    \<not> inDefects defectList x y \<and> (m AND (bad OR sat)) = 0)
                            (zip (pixelsWithXY (getImage mi))
                                 (pixelsWithXY (getArray (getMask mi))))))))))"

text \<open>
  A plane 3 wide and 2 high: a good row at 1 and a row at 4 that is a defect from end to
  end and carries the \<open>BAD\<close> bit.
\<close>

definition badRowExposure :: Exposure where
  "badRowExposure =
     \<lparr>getMaskedImage =
        \<lparr>getImage = [[1, 1, 1], [4, 4, 4]],
         getMask = \<lparr>getMaskPlaneDict = defaultMaskPlaneDict, getArray = [[0, 0, 0], [1, 1, 1]]\<rparr>,
         getVariance = [[1, 1, 1], [1, 1, 1]]\<rparr>\<rparr>"

definition badRowDefects :: "Defect list" where
  "badRowDefects = [Defect \<lparr>getMinX = 0, getMinY = 1, getMaxX = 2, getMaxY = 1\<rparr>]"

section \<open>Footprints\<close>

text \<open>
  Modelled from the spec: the detection library (\<^verbatim>\<open>afwDetection\<close>) is not a file of this
  repository. The spec (sections 3 and 4.3) has a footprint as a set of per-row spans; the
  detector groups the connected pixels whose value exceeds the threshold, and a pixel
  belongs to at most one footprint. A span is \<open>(y, x0, x1)\<close>: the pixels \<open>x0 .. x1\<close> of
  row \<open>y\<close>. \<open>runs\<close> finds the maximal runs of \<open>True\<close> in a row, \<open>planeSpans\<close> the spans of a
  plane of truth values, row by row.
\<close>

type_synonym Span = "nat \<times> nat \<times> nat"

type_synonym Footprint = "Span list"

fun runs :: "bool list \<Rightarrow> nat \<Rightarrow> (nat \<times> nat) list" where
  "runs [] x = []"
| "runs (b # bs) x =
     (if b then
        (case runs bs (Suc x) of
           [] \<Rightarrow> [(x, x)]
         | (x0, x1) # rest \<Rightarrow> if x0 = Suc x then (x, x1) # rest else (x, x) # (x0, x1) # rest)
      else runs bs (Suc x))"

definition rowSpans :: "nat \<Rightarrow> bool list \<Rightarrow> Span list" where
  "rowSpans y bs = map (\<lambda>(x0, x1). (y, x0, x1)) (runs bs 0)"

definition planeSpans :: "bool Image \<Rightarrow> Span list" where
  "planeSpans im = concat (map (\<lambda>(y, r). rowSpans y r) (enumerate 0 im))"

definition inSpan :: "Span \<Rightarrow> nat \<Rightarrow> nat \<Rightarrow> bool" where
  "inSpan s x y = (case s of (sy, x0, x1) \<Rightarrow> y = sy \<and> x0 \<le> x \<and> x \<le> x1)"

definition inFootprint :: "Footprint \<Rightarrow> nat \<Rightarrow> nat \<Rightarrow> bool" where
  "inFootprint fp x y = (\<exists>s \<in> set fp. inSpan s x y)"

text \<open>
  Two spans touch when they lie in neighbouring rows and their columns overlap or meet
  at a corner (8-connectivity; two spans of one row never touch, they are maximal runs).
  A new span joins all the footprints it touches into one.
\<close>

definition touches :: "Span \<Rightarrow> Span \<Rightarrow> bool" where
  "touches s t =
     (case s of (sy, s0, s1) \<Rightarrow> case t of (ty, t0, t1) \<Rightarrow>
        (sy = Suc ty \<or> ty = Suc sy) \<and> t0 \<le> Suc s1 \<and> s0 \<le> Suc t1)"

definition insertSpan :: "Span \<Rightarrow> Footprint list \<Rightarrow> Footprint list" where
  "insertSpan s fps =
     (s # concat (filter (\<lambda>fp. \<exists>t \<in> set fp. touches s t) fps))
       # filter (\<lambda>fp. \<not> (\<exists>t \<in> set fp. touches s t)) fps"

text \<open>
  \<^verbatim>\<open>afwDetection.makeFootprintSet(image, Threshold(t)).getFootprints()\<close>: the footprints
  of the pixels above the threshold. The spec fixes no order of the footprints; here each
  stands where its last span was met.
\<close>

definition makeFootprintSet :: "rat Image \<Rightarrow> rat \<Rightarrow> Footprint list" where
  "makeFootprintSet im thresh =
     rev (fold insertSpan (planeSpans (map (map (\<lambda>p. p > thresh)) im)) [])"

text \<open>
  \<^verbatim>\<open>afwDetection.setMaskFromFootprint(mask, fp, bitmask)\<close>: the bit mask is OR-ed into
  every mask pixel of the footprint.
\<close>

definition setMaskFromFootprint :: "Mask \<Rightarrow> Footprint \<Rightarrow> 16 word \<Rightarrow> Mask" where
  "setMaskFromFootprint m fp bitmask =
     m\<lparr>getArray :=
         map (\<lambda>(y, r). map (\<lambda>(x, v). if inFootprint fp x y then v OR bitmask else v)
                          (enumerate 0 r))
             (enumerate 0 (getArray m))\<rparr>"

text \<open>
  \<^verbatim>\<open>afwDetection.footprintToBBoxList(fp)\<close>: rectangles that cover every pixel of the
  footprint and no other; the model gives one box, one row high, for each span.
\<close>

definition spanBBox :: "Span \<Rightarrow> Box2I" where
  "spanBBox s = (case s of (y, x0, x1) \<Rightarrow>
     \<lparr>getMinX = int x0, getMinY = int y, getMaxX = int x1, getMaxY = int y\<rparr>)"

definition footprintToBBoxList :: "Footprint \<Rightarrow> Box2I list" where
  "footprintToBBoxList fp = map spanBBox fp"

text \<open>
  \<^verbatim>\<open>afwDetection.growFootprint(fp, n, False)\<close>, the cheap growth of the spec: every span
  is widened by \<open>n\<close> pixels at both ends and repeated in the \<open>n\<close> rows above and below,
  clipped to the plane, here \<open>w\<close> wide and \<open>h\<close> high.
\<close>

definition growFootprint :: "nat \<Rightarrow> nat \<Rightarrow> Footprint \<Rightarrow> nat \<Rightarrow> Footprint" where
  "growFootprint w h fp n =
     planeSpans
       (map (\<lambda>y. map (\<lambda>x. \<exists>s \<in> set fp. case s of (sy, x0, x1) \<Rightarrow>
                             y \<le> sy + n \<and> sy \<le> y + n \<and> x0 \<le> x + n \<and> x \<le> x1 + n)
                      [0..<w])
            [0..<h])"

section \<open>Saturation detection and defects from a mask\<close>

text \<open>
  \<^verbatim>\<open>saturationDetection(exposure, saturation, doMask=True, maskName='SAT')\<close> of
  \<^verbatim>\<open>isr.py\<close>: the loop over the footprints, which looks the mask bit up anew for each
  footprint, and the function. The result is the list of box lists together with the
  exposure as the call leaves it.
\<close>

fun saturationLoop ::
  "Footprint list \<Rightarrow> bool \<Rightarrow> string \<Rightarrow> MaskedImage \<Rightarrow> Box2I list list \<Rightarrow>
   error + (Box2I list list \<times> MaskedImage)" where
  "saturationLoop [] doMask maskName mi bboxes = Inr (bboxes, mi)"
| "saturationLoop (fp # fpList) doMask maskName mi bboxes =
     (if doMask then
        (case getPlaneBitMask (getMask mi) maskName of
           Inl e \<Rightarrow> Inl e
         | Inr bitmask \<Rightarrow>
             saturationLoop fpList doMask maskName
               (mi\<lparr>getMask := setMaskFromFootprint (getMask mi) fp bitmask\<rparr>)
               (bboxes @ [footprintToBBoxList fp]))
      else saturationLoop fpList doMask maskName mi (bboxes @ [footprintToBBoxList fp]))"

definition saturationDetection ::
  "Exposure \<Rightarrow> rat \<Rightarrow> bool \<Rightarrow> string \<Rightarrow> error + (Box2I list list \<times> Exposure)" where
  "saturationDetection exposure saturation doMask maskName =
     (let mi = getMaskedImage exposure;
          fpList = makeFootprintSet (getImage mi) saturation
      in case saturationLoop fpList doMask maskName mi [] of
           Inl e \<Rightarrow> Inl e
         | Inr (bboxes, mi') \<Rightarrow> Inr (bboxes, exposure\<lparr>getMaskedImage := mi'\<rparr>))"

text \<open>
  \<^verbatim>\<open>mask.addMaskPlane(name)\<close>: the name gets the lowest bit no plane uses; the library
  raises when all sixteen are taken.
\<close>

definition addMaskPlane :: "string \<Rightarrow> Mask \<Rightarrow> error + Mask" where
  "addMaskPlane name m =
     (case filter (\<lambda>i. i \<notin> snd ` set (getMaskPlaneDict m)) [0..<16] of
        [] \<Rightarrow> Inl (RuntimeError ''Max number of planes already used'')
      | i # _ \<Rightarrow> Inr (m\<lparr>getMaskPlaneDict := getMaskPlaneDict m @ [(name, i)]\<rparr>))"

text \<open>
  \<^verbatim>\<open>defectListFromMask(exposure, growFootprints=1, maskName='SAT')\<close> of \<^verbatim>\<open>isr.py\<close>. The
  copy of the mask is AND-ed with the plane's bit and read as an image of numbers, whose
  footprints above 0.5 are the pixels that carry the bit. Each footprint is grown when
  \<open>growFootprints > 0\<close>, and every box of it becomes a defect. At the end the \<^verbatim>\<open>INTRP\<close>
  plane is added to the registry if it is not there.
\<close>

definition defectListFromMask ::
  "Exposure \<Rightarrow> int \<Rightarrow> string \<Rightarrow> error + (Defect list \<times> Exposure)" where
  "defectListFromMask exposure growFootprints maskName =
     (let mi = getMaskedImage exposure;
          mask = getMask mi
      in case getPlaneBitMask mask maskName of
           Inl e \<Rightarrow> Inl e
         | Inr bitmask \<Rightarrow>
             (let satmask = map (map (\<lambda>v. v AND bitmask)) (getArray mask);
                  maskimg = map (map (\<lambda>v. of_nat (unat v))) satmask;
                  fpList = makeFootprintSet maskimg (1 / 2);
                  satDefectList =
                    concat (map (\<lambda>fp.
                       map Defect
                         (footprintToBBoxList
                            (if growFootprints > 0
                             then growFootprint (getWidth maskimg) (getHeight maskimg) fp
                                    (nat growFootprints)
                             else fp)))
                       fpList)
              in if ''INTRP'' \<notin> fst ` set (getMaskPlaneDict mask) then
                   (case addMaskPlane ''INTRP'' mask of
                      Inl e \<Rightarrow> Inl e
                    | Inr mask' \<Rightarrow>
                        Inr (satDefectList,
                             exposure\<lparr>getMaskedImage := mi\<lparr>getMask := mask'\<rparr>\<rparr>))
                 else Inr (satDefectList, exposure)))"

text \<open>
  The planes of \<^verbatim>\<open>test_defect.py\<close>: a mask 10 by 10, all zero, with chosen pixels set to
  the bit of a plane.
\<close>

definition setMaskPixel :: "nat \<Rightarrow> nat \<Rightarrow> 16 word \<Rightarrow> Exposure \<Rightarrow> Exposure" where
  "setMaskPixel x y v exposure =
     (let mi = getMaskedImage exposure; m = getMask mi
      in exposure\<lparr>getMaskedImage :=
           mi\<lparr>getMask := m\<lparr>getArray := (getArray m)[y := (getArray m ! y)[x := v]]\<rparr>\<rparr>\<rparr>)"

definition blankExposure :: Exposure where
  "blankExposure = makeExposure (replicate 10 (replicate 10 0))"

definition oneBadPixel :: Exposure where
  "oneBadPixel = setMaskPixel 5 5 1 blankExposure"

definition saturatedExposure :: Exposure where
  "saturatedExposure =
     makeExposure [[1, 1, 1, 1], [1, 9, 9, 1], [1, 1, 9, 1], [1, 1, 1, 1]]"

text \<open>
  The test's mask with a \<^verbatim>\<open>SUSPECT\<close> pixel at \<open>(1, 1)\<close> (bit 7) and a second \<^verbatim>\<open>BAD\<close>
  pixel at \<open>(9, 9)\<close>, and the defect that is the single pixel \<open>(x, y)\<close>.
\<close>

definition suspectAndBad :: Exposure where
  "suspectAndBad = setMaskPixel 9 9 1 (setMaskPixel 1 1 128 oneBadPixel)"

definition pixelDefect :: "nat \<times> nat \<Rightarrow> Defect" where
  "pixelDefect p = (case p of (x, y) \<Rightarrow>
     Defect \<lparr>getMinX = int x, getMinY = int y, getMaxX = int x, getMaxY = int y\<rparr>)"

text \<open>
  An exposure under another registry of mask planes, and a registry whose sixteen planes
  are all taken, none of them by \<^verbatim>\<open>INTRP\<close>.
\<close>

definition withMaskPlanes :: "(string \<times> nat) list \<Rightarrow> Exposure \<Rightarrow> Exposure" where
  "withMaskPlanes planes exposure =
     exposure\<lparr>getMaskedImage :=
       (getMaskedImage exposure)\<lparr>getMask :=
         (getMask (getMaskedImage exposure))\<lparr>getMaskPlaneDict := planes\<rparr>\<rparr>\<rparr>"

definition fullMaskPlaneDict :: "(string \<times> nat) list" where
  "fullMaskPlaneDict =
     [(''BAD'', 0), (''SAT'', 1), (''CLIPPED'', 2), (''CR'', 3), (''EDGE'', 4),
      (''DETECTED'', 5), (''DETECTED_NEGATIVE'', 6), (''SUSPECT'', 7), (''NO_DATA'', 8),
      (''P9'', 9), (''P10'', 10), (''P11'', 11), (''P12'', 12), (''P13'', 13), (''P14'', 14),
      (''P15'', 15)]"
section \<open>Calibration provenance\<close>

text \<open>
  \<^verbatim>\<open>calibType.py\<close>. The values a metadata entry or a data id holds, and the metadata
  itself: a \<^verbatim>\<open>PropertyList\<close> is compared by its keys and their values, so it is a map from
  names to values. \<^verbatim>\<open>md[k] = v\<close> is \<open>md(k \<mapsto> v)\<close> and \<^verbatim>\<open>md.update(d)\<close> is \<open>md ++ d\<close>.
\<close>

datatype pyval = PNone | PStr string | PInt int | PBool bool

type_synonym PropertyList = "string \<rightharpoonup> pyval"

type_synonym DataId = "(string \<times> pyval) list"

text \<open>
  An \<^verbatim>\<open>IsrProvenance\<close> object: the attributes \<^verbatim>\<open>IsrCalib.__init__\<close> and
  \<^verbatim>\<open>IsrProvenance.__init__\<close> set. \<open>requiredAttributes\<close> is a Python set, kept in the order
  \<^verbatim>\<open>__eq__\<close> walks it; \<open>dimensions\<close> is a Python set of names.
\<close>

record IsrProvenance =
  detectorName :: "string option"
  detectorSerial :: "string option"
  detectorId :: "int option"
  metadata :: PropertyList
  requiredAttributes :: "string list"
  instrument :: string
  calibType :: string
  dimensions :: "string fset"
  dataIdList :: "DataId list"

text \<open>The class attributes \<^verbatim>\<open>_OBSTYPE\<close>, \<^verbatim>\<open>_SCHEMA\<close> and \<^verbatim>\<open>_VERSION\<close>.\<close>

definition OBSTYPE :: string where
  "OBSTYPE = ''IsrProvenance''"

definition SCHEMA :: string where
  "SCHEMA = ''NO SCHEMA''"

definition VERSION :: int where
  "VERSION = 0"

definition optStr :: "string option \<Rightarrow> pyval" where
  "optStr v = (case v of None \<Rightarrow> PNone | Some s \<Rightarrow> PStr s)"

text \<open>
  \<^verbatim>\<open>setMetadata(metadata)\<close>: a copy of the argument replaces the metadata unless the
  argument is \<^verbatim>\<open>None\<close>; then the three class entries are written.
\<close>

definition setMetadata :: "PropertyList option \<Rightarrow> IsrProvenance \<Rightarrow> IsrProvenance" where
  "setMetadata md self =
     (let m = (case md of None \<Rightarrow> metadata self | Some new \<Rightarrow> new)
      in self\<lparr>metadata := m(''OBSTYPE'' \<mapsto> PStr OBSTYPE,
                              OBSTYPE @ ''_SCHEMA'' \<mapsto> PStr SCHEMA,
                              OBSTYPE @ ''_VERSION'' \<mapsto> PInt VERSION)\<rparr>)"

text \<open>
  The reading of the clock that \<^verbatim>\<open>datetime.datetime.now()\<close> returns, by the three strings
  the code takes from it: \<^verbatim>\<open>date.isoformat()\<close>, \<^verbatim>\<open>date.date().isoformat()\<close> and
  \<^verbatim>\<open>date.time().isoformat()\<close>.
\<close>

record DateTime =
  isoformat :: string
  dateIsoformat :: string
  timeIsoformat :: string

text \<open>
  \<^verbatim>\<open>IsrCalib.updateMetadata(setDate, **kwargs)\<close>. \<open>setDate\<close> is \<open>Some now\<close> for
  \<^verbatim>\<open>setDate=True\<close>, with the clock's reading, and \<open>None\<close> for \<^verbatim>\<open>setDate=False\<close>.
\<close>

definition IsrCalib_updateMetadata ::
  "DateTime option \<Rightarrow> PropertyList \<Rightarrow> IsrProvenance \<Rightarrow> IsrProvenance" where
  "IsrCalib_updateMetadata setDate kwargs self =
     (let md = (metadata self)(''DETECTOR'' \<mapsto> optStr (detectorName self),
                               ''DETECTOR_SERIAL'' \<mapsto> optStr (detectorSerial self));
          mdSupplemental =
            (case setDate of
               None \<Rightarrow> Map.empty
             | Some date \<Rightarrow>
                 [''CALIBDATE'' \<mapsto> PStr (isoformat date),
                  ''CALIB_CREATION_DATE'' \<mapsto> PStr (dateIsoformat date),
                  ''CALIB_CREATION_TIME'' \<mapsto> PStr (timeIsoformat date)]) ++ kwargs
      in self\<lparr>metadata := md ++ mdSupplemental\<rparr>)"

text \<open>\<^verbatim>\<open>IsrProvenance.updateMetadata(setDate, **kwargs)\<close>, the override.\<close>

definition updateMetadata ::
  "DateTime option \<Rightarrow> PropertyList \<Rightarrow> IsrProvenance \<Rightarrow> IsrProvenance" where
  "updateMetadata setDate kwargs self =
     IsrCalib_updateMetadata setDate
       (kwargs(''DETECTOR'' \<mapsto> optStr (detectorName self),
               ''DETECTOR_SERIAL'' \<mapsto> optStr (detectorSerial self),
               ''INSTRUME'' \<mapsto> PStr (instrument self),
               ''calibType'' \<mapsto> PStr (calibType self)))
       self"

text \<open>
  A call \<^verbatim>\<open>calib.updateMetadata(setDate=..., **mapping)\<close>: Python raises \<open>TypeError\<close> when a
  key of the unpacked mapping is the name of a parameter that is already bound, here
  \<^verbatim>\<open>setDate\<close> or \<^verbatim>\<open>self\<close>.
\<close>

definition updateMetadata_unpacked ::
  "DateTime option \<Rightarrow> PropertyList \<Rightarrow> IsrProvenance \<Rightarrow> error + IsrProvenance" where
  "updateMetadata_unpacked setDate mapping self =
     (if ''self'' \<in> dom mapping then Inl (TypeError ''self'')
      else if ''setDate'' \<in> dom mapping then Inl (TypeError ''setDate'')
      else Inr (updateMetadata setDate mapping self))"

text \<open>
  \<^verbatim>\<open>IsrProvenance(instrument, calibType, detectorName, detectorSerial, detectorId)\<close>: the
  two constructors, run without a \<^verbatim>\<open>detector\<close> (with one, \<^verbatim>\<open>fromDetector\<close> raises
  \<^verbatim>\<open>NotImplementedError\<close>). The log is not part of the state.
\<close>

definition init ::
  "string \<Rightarrow> string \<Rightarrow> string option \<Rightarrow> string option \<Rightarrow> int option \<Rightarrow> IsrProvenance" where
  "init instr ctype dname dserial did =
     (let self = \<lparr>detectorName = dname, detectorSerial = dserial, detectorId = did,
                   metadata = Map.empty, requiredAttributes = [],
                   instrument = instr, calibType = ctype,
                   dimensions = {||}, dataIdList = []\<rparr>;
          self = setMetadata (Some Map.empty) self;
          self = self\<lparr>requiredAttributes :=
                   [''_OBSTYPE'', ''_SCHEMA'', ''_VERSION'',
                    ''_detectorName'', ''_detectorSerial'', ''_metadata'']\<rparr>;
          self = updateMetadata None Map.empty self
      in self\<lparr>requiredAttributes :=
              requiredAttributes self @ [''instrument'', ''calibType'', ''dimensions'', ''dataIdList'']\<rparr>)"

text \<open>\<^verbatim>\<open>fromDataIds(dataIdList)\<close>: every key of every data id becomes a dimension.\<close>

definition fromDataIds :: "DataId list \<Rightarrow> IsrProvenance \<Rightarrow> IsrProvenance" where
  "fromDataIds ids self =
     fold (\<lambda>dataId s. s\<lparr>dimensions := dimensions s |\<union>| fset_of_list (map fst dataId),
                         dataIdList := dataIdList s @ [dataId]\<rparr>) ids self"

text \<open>
  The dictionary \<^verbatim>\<open>toDict\<close> builds and \<^verbatim>\<open>fromDict\<close> reads, by its seven keys.
  \<^verbatim>\<open>list(self.dimensions)\<close> lists the set in an order Python does not fix; the model lists
  it sorted.
\<close>

record ProvenanceDict =
  dict_metadata :: PropertyList
  dict_detectorName :: "string option"
  dict_detectorSerial :: "string option"
  dict_instrument :: string
  dict_calibType :: string
  dict_dimensions :: "string list"
  dict_dataIdList :: "DataId list"

text \<open>
  \<^verbatim>\<open>toDict()\<close> first stamps the date on the object's own metadata, so it returns the
  dictionary together with the object as the call leaves it.
\<close>

definition toDict :: "DateTime \<Rightarrow> IsrProvenance \<Rightarrow> ProvenanceDict \<times> IsrProvenance" where
  "toDict now self =
     (let self = updateMetadata (Some now) Map.empty self
      in (\<lparr>dict_metadata = metadata self,
           dict_detectorName = detectorName self,
           dict_detectorSerial = detectorSerial self,
           dict_instrument = instrument self,
           dict_calibType = calibType self,
           dict_dimensions = sorted_list_of_fset (dimensions self),
           dict_dataIdList = dataIdList self\<rparr>, self))"

definition fromDict :: "ProvenanceDict \<Rightarrow> error + IsrProvenance" where
  "fromDict dictionary =
     (let calib = init ''unknown'' ''unknown'' None None None
      in case updateMetadata_unpacked None (dict_metadata dictionary) calib of
           Inl e \<Rightarrow> Inl e
         | Inr calib \<Rightarrow>
             (let calib = calib\<lparr>detectorName := dict_detectorName dictionary,
                                detectorSerial := dict_detectorSerial dictionary,
                                instrument := dict_instrument dictionary,
                                calibType := dict_calibType dictionary,
                                dimensions := fset_of_list (dict_dimensions dictionary),
                                dataIdList := dict_dataIdList dictionary\<rparr>
              in Inr (updateMetadata None Map.empty calib)))"

text \<open>
  \<^verbatim>\<open>getattr(self, attr)\<close> for the names \<^verbatim>\<open>__eq__\<close> can meet; any other name is not an
  attribute of the object.
\<close>

datatype attr =
    AStr string
  | AInt int
  | AOptStr "string option"
  | AMetadata PropertyList
  | ADimensions "string fset"
  | ADataIds "DataId list"

definition getattr :: "IsrProvenance \<Rightarrow> string \<Rightarrow> error + attr" where
  "getattr self name =
     (if name = ''_OBSTYPE'' then Inr (AStr OBSTYPE)
      else if name = ''_SCHEMA'' then Inr (AStr SCHEMA)
      else if name = ''_VERSION'' then Inr (AInt VERSION)
      else if name = ''_detectorName'' then Inr (AOptStr (detectorName self))
      else if name = ''_detectorSerial'' then Inr (AOptStr (detectorSerial self))
      else if name = ''_metadata'' then Inr (AMetadata (metadata self))
      else if name = ''instrument'' then Inr (AStr (instrument self))
      else if name = ''calibType'' then Inr (AStr (calibType self))
      else if name = ''dimensions'' then Inr (ADimensions (dimensions self))
      else if name = ''dataIdList'' then Inr (ADataIds (dataIdList self))
      else Inl (AttributeError name))"

text \<open>
  \<^verbatim>\<open>IsrCalib.__eq__\<close>, which \<^verbatim>\<open>IsrProvenance.__eq__\<close> calls: both objects are
  \<^verbatim>\<open>IsrProvenance\<close> here, so the \<^verbatim>\<open>isinstance\<close> test passes, and the loop compares the
  required attributes of \<open>self\<close> one by one.
\<close>

fun eqAttributes :: "string list \<Rightarrow> IsrProvenance \<Rightarrow> IsrProvenance \<Rightarrow> error + bool" where
  "eqAttributes [] self other = Inr True"
| "eqAttributes (a # rest) self other =
     (case getattr self a of
        Inl e \<Rightarrow> Inl e
      | Inr u \<Rightarrow>
          (case getattr other a of
             Inl e \<Rightarrow> Inl e
           | Inr v \<Rightarrow> if u \<noteq> v then Inr False else eqAttributes rest self other))"

definition eq :: "IsrProvenance \<Rightarrow> IsrProvenance \<Rightarrow> error + bool" where
  "eq self other = eqAttributes (requiredAttributes self) self other"

text \<open>
  A provenance whose caller removed the \<^verbatim>\<open>OBSTYPE\<close> entry from the metadata that
  \<^verbatim>\<open>getMetadata()\<close> hands out, and the reading of the clock used below.
\<close>

definition strippedProvenance :: IsrProvenance where
  "strippedProvenance =
     (let p = init ''LATISS'' ''bias'' (Some ''RXX_S00'') (Some ''ITL-3800C-068'') (Some 0)
      in p\<lparr>metadata := (metadata p)(''OBSTYPE'' := None)\<rparr>)"

definition someDate :: DateTime where
  "someDate = \<lparr>isoformat = ''2020-06-01T12:00:00'', dateIsoformat = ''2020-06-01'',
               timeIsoformat = ''12:00:00''\<rparr>"

definition biasProvenance :: IsrProvenance where
  "biasProvenance =
     fromDataIds [[(''exposure'', PInt 42), (''detector'', PInt 0)]]
       (init ''LATISS'' ''bias'' (Some ''RXX_S00'') (Some ''ITL-3800C-068'') (Some 0))"

section \<open>Corrections that are not implemented\<close>

text \<open>
  \<^verbatim>\<open>fringeCorrection\<close> raises \<open>LsstException\<close> with the message built from a literal.
  \<^verbatim>\<open>pupilCorrection\<close> builds its message from \<^verbatim>\<open>stageName\<close>, a name that neither the
  function nor the module binds, so evaluating the message raises Python's \<open>NameError\<close>
  before the \<^verbatim>\<open>raise\<close> statement gets its exception.
\<close>

definition fringeCorrection :: "Exposure \<Rightarrow> Exposure \<Rightarrow> error + Exposure" where
  "fringeCorrection exposure fringe =
     Inl (LsstException (''ipIsr.fringCorrection'' @ '' not implemented''))"

definition pupilCorrection :: "Exposure \<Rightarrow> Exposure \<Rightarrow> error + Exposure" where
  "pupilCorrection exposure pupil = Inl (NameError ''stageName'')"

section \<open>Properties\<close>

subsection \<open>Planes, boxes and statistics\<close>

lemma all_same_replicate: "\<forall>x\<in>set xs. x = c \<Longrightarrow> xs = replicate (length xs) c"
  by (induction xs) auto

lemma mean_replicate: "0 < n \<Longrightarrow> mean (replicate n c) = c"
  by (simp add: mean_def sum_list_replicate)

lemma sort_replicate: "sort (replicate n (c::rat)) = replicate n c"
  by (simp add: sorted_sort_id)

lemma median_replicate: "0 < n \<Longrightarrow> median (replicate n c) = c"
  by (auto simp: median_def Let_def sort_replicate elim!: oddE)

lemma mean_const: "xs \<noteq> [] \<Longrightarrow> \<forall>x\<in>set xs. x = c \<Longrightarrow> mean xs = c"
  using all_same_replicate[of xs c] mean_replicate[of "length xs" c] by simp

lemma median_const: "xs \<noteq> [] \<Longrightarrow> \<forall>x\<in>set xs. x = c \<Longrightarrow> median xs = c"
  using all_same_replicate[of xs c] median_replicate[of "length xs" c] by simp

lemma getWidth_row: "rectangular im \<Longrightarrow> y < length im \<Longrightarrow> length (im ! y) = getWidth im"
  by (simp add: rectangular_def)

lemma subImage_pixels:
  assumes "subImage im b = Inr sub" and "p \<in> set (concat sub)"
  shows "\<exists>x y. boxContains b (int x) (int y) \<and> y < length im \<and> x < length (im ! y) \<and> p = getPixel im x y"
proof (cases "isEmpty b")
  case True
  with assms show ?thesis by (simp add: subImage_def)
next
  case False
  with assms(1) have fit: "fitsIn b im"
    and sub: "sub = map (\<lambda>r. take (nat (getMaxX b - getMinX b + 1)) (drop (nat (getMinX b)) r))
               (take (nat (getMaxY b - getMinY b + 1)) (drop (nat (getMinY b)) im))"
    by (auto simp: subImage_def split: if_splits)
  from assms(2) obtain r where r: "r \<in> set (take (nat (getMaxY b - getMinY b + 1)) (drop (nat (getMinY b)) im))"
    and p: "p \<in> set (take (nat (getMaxX b - getMinX b + 1)) (drop (nat (getMinX b)) r))"
    unfolding sub by auto
  from r obtain j where j: "j < nat (getMaxY b - getMinY b + 1)" "j < length (drop (nat (getMinY b)) im)"
    "r = drop (nat (getMinY b)) im ! j"
    by (auto simp: in_set_conv_nth)
  from p obtain i where i: "i < nat (getMaxX b - getMinX b + 1)" "i < length (drop (nat (getMinX b)) r)"
    "p = drop (nat (getMinX b)) r ! i"
    by (auto simp: in_set_conv_nth)
  let ?x = "nat (getMinX b) + i" and ?y = "nat (getMinY b) + j"
  have y: "?y < length im" using j by simp
  have ry: "r = im ! ?y" using j by simp
  have x: "?x < length (im ! ?y)" using i ry by simp
  have px: "p = getPixel im ?x ?y" using i ry by (simp add: getPixel_def)
  have "boxContains b (int ?x) (int ?y)"
    using fit i(1) j(1) by (auto simp: boxContains_def fitsIn_def)
  with y x px show ?thesis by blast
qed

lemma subImage_nonempty:
  assumes "rectangular im" "\<not> isEmpty b" "fitsIn b im"
  shows "\<exists>sub. subImage im b = Inr sub \<and> concat sub \<noteq> []"
proof -
  let ?sub = "map (\<lambda>r. take (nat (getMaxX b - getMinX b + 1)) (drop (nat (getMinX b)) r))
               (take (nat (getMaxY b - getMinY b + 1)) (drop (nat (getMinY b)) im))"
  have s: "subImage im b = Inr ?sub" using assms by (simp add: subImage_def)
  have y: "nat (getMinY b) < length im"
    using assms(2,3) by (auto simp: fitsIn_def isEmpty_def getHeight_def)
  then have len: "length (im ! nat (getMinY b)) = getWidth im"
    using assms(1) by (simp add: getWidth_row)
  have x: "nat (getMinX b) < getWidth im"
    using assms(2,3) by (auto simp: fitsIn_def isEmpty_def)
  have h: "0 < nat (getMaxY b - getMinY b + 1)" and w: "0 < nat (getMaxX b - getMinX b + 1)"
    using assms(2) by (auto simp: isEmpty_def)
  have "im ! nat (getMinY b) \<in> set (take (nat (getMaxY b - getMinY b + 1)) (drop (nat (getMinY b)) im))"
    using y h by (auto simp: in_set_conv_nth intro!: exI[of _ 0])
  moreover have "take (nat (getMaxX b - getMinX b + 1)) (drop (nat (getMinX b)) (im ! nat (getMinY b))) \<noteq> []"
    using x w len by auto
  ultimately have "concat ?sub \<noteq> []" by force
  with s show ?thesis by blast
qed

lemma getPixel_map:
  "y < length im \<Longrightarrow> x < length (im ! y) \<Longrightarrow> getPixel (map (map f) im) x y = f (getPixel im x y)"
  by (simp add: getPixel_def)

lemma overscanExposureY_image:
  "getImage (getMaskedImage overscanExposureY) = replicate 10 (replicate 10 10) @ replicate 3 (replicate 10 2)"
  by (simp add: overscanExposureY_def makeExposure_def)

lemma getWidth_replicate_append: "0 < n \<Longrightarrow> getWidth (replicate n r @ rest) = length r"
  by (cases n) (simp_all add: getWidth_def)

lemma rectangular_append_replicate:
  "rectangular (replicate (Suc m) (replicate w a) @ replicate n (replicate w b))"
  by (auto simp: rectangular_def getWidth_def)

lemma subImage_fits: "fitsIn b im \<Longrightarrow> \<exists>sub. subImage im b = Inr sub"
  by (simp add: subImage_def)

lemma subImage_error: "subImage im b = Inl e \<Longrightarrow> e = LengthError"
  by (auto simp: subImage_def split: if_splits)

subsection \<open>Overscan correction\<close>

lemma fl32_examples:
  "fl32 (1 / 10) = 13421773 / 134217728"
  "fl32 16777217 = 16777216"
  "fl32 16777219 = 16777220"
  by code_simp+

text \<open>
  C1, as amended. When every pixel of the overscan box holds the float \<open>overscanValue\<close>
  and every pixel of the data box holds \<open>dataValue\<close>, \<^verbatim>\<open>overscanCorrection\<close> with fit type
  \<open>MEAN\<close> or \<open>MEDIAN\<close> returns normally, and every pixel of the data box is then exactly
  \<open>dataValue - overscanValue\<close> provided this difference is itself the value of a 32-bit
  float. The witness is the test's plane: data 10, overscan 2, corrected data 8.
\<close>

theorem overscanCorrectionF_uniform:
  assumes ft: "fittype = ''MEAN'' \<or> fittype = ''MEDIAN''"
    and rect: "rectangular (getImage (getMaskedImage exposure))"
    and ne: "\<not> isEmpty overscanBBox"
    and fit: "fitsIn overscanBBox (getImage (getMaskedImage exposure))"
    and os: "\<forall>x y. boxContains overscanBBox (int x) (int y) \<longrightarrow>
                   getPixel (getImage (getMaskedImage exposure)) x y = overscanValue"
    and dfit: "fitsIn dataBox (getImage (getMaskedImage exposure))"
    and data: "\<forall>x y. boxContains dataBox (int x) (int y) \<longrightarrow>
                   getPixel (getImage (getMaskedImage exposure)) x y = dataValue"
    and fo: "float32 overscanValue"
    and fd: "float32 (dataValue - overscanValue)"
  shows "\<exists>corrected.
           overscanCorrectionF exposure overscanBBox fittype overscanKeyword polyorder = Inr corrected \<and>
           (\<forall>x y. boxContains dataBox (int x) (int y) \<longrightarrow>
                  getPixel (getImage (getMaskedImage corrected)) x y = dataValue - overscanValue)"
proof -
  let ?im = "getImage (getMaskedImage exposure)"
  from subImage_nonempty[OF rect ne fit] obtain sub
    where sub: "subImage ?im overscanBBox = Inr sub" and nonempty: "concat sub \<noteq> []"
    by blast
  have "\<forall>p\<in>set (concat sub). p = overscanValue"
    using subImage_pixels[OF sub] os by blast
  then have m: "mean (concat sub) = overscanValue" and md: "median (concat sub) = overscanValue"
    using nonempty by (simp_all add: mean_const median_const)
  let ?corrected = "exposure\<lparr>getMaskedImage := minusScalarF (getMaskedImage exposure) overscanValue\<rparr>"
  have st: "makeStatistics sub MEAN = Inr overscanValue" "makeStatistics sub MEDIAN = Inr overscanValue"
    using nonempty m md by (simp_all add: makeStatistics_def del: concat_eq_Nil_conv)
  have res: "overscanCorrectionF exposure overscanBBox fittype overscanKeyword polyorder = Inr ?corrected"
    using ft sub st by (auto simp: overscanCorrectionF_def)
  have "getPixel (getImage (getMaskedImage ?corrected)) x y = dataValue - overscanValue"
    if c: "boxContains dataBox (int x) (int y)" for x y
  proof -
    have y: "y < length ?im"
      using c dfit by (auto simp: boxContains_def fitsIn_def getHeight_def)
    then have "x < length (?im ! y)"
      using c dfit rect by (auto simp: boxContains_def fitsIn_def getWidth_row)
    with y have "getPixel (map (map (\<lambda>p. fl32 (p - fl32 overscanValue))) ?im) x y =
                 fl32 (getPixel ?im x y - fl32 overscanValue)"
      by (rule getPixel_map)
    with data c fo fd show ?thesis by (simp add: minusScalarF_def float32_def)
  qed
  with res show ?thesis by blast
qed

theorem overscanCorrectionF_uniform_witness:
  "\<exists>corrected.
     overscanCorrectionF overscanExposureY overscanBBoxY ''MEDIAN'' ''overscan'' 1 = Inr corrected \<and>
     getPixel (getImage (getMaskedImage corrected)) 3 7 = 8"
proof -
  let ?im = "getImage (getMaskedImage overscanExposureY)"
  have rect: "rectangular ?im"
    unfolding overscanExposureY_image
    using rectangular_append_replicate[of 9 10 10 3 2] by simp
  have ne: "\<not> isEmpty overscanBBoxY" by (simp add: isEmpty_def overscanBBoxY_def)
  have fit: "fitsIn overscanBBoxY ?im" and dfit: "fitsIn dataBBox ?im"
    by (simp_all add: fitsIn_def overscanBBoxY_def dataBBox_def overscanExposureY_image
          getWidth_replicate_append getHeight_def)
  have os: "\<forall>x y. boxContains overscanBBoxY (int x) (int y) \<longrightarrow> getPixel ?im x y = 2"
    by (auto simp: boxContains_def overscanBBoxY_def overscanExposureY_image getPixel_def nth_append)
  have data: "\<forall>x y. boxContains dataBBox (int x) (int y) \<longrightarrow> getPixel ?im x y = 10"
    by (auto simp: boxContains_def dataBBox_def overscanExposureY_image getPixel_def nth_append)
  have fo: "float32 2" by code_simp
  have "float32 8" by code_simp
  then have fd: "float32 (10 - 2)" by simp
  have "boxContains dataBBox (int 3) (int 7)" by (simp add: boxContains_def dataBBox_def)
  with overscanCorrectionF_uniform[of "''MEDIAN''" overscanExposureY overscanBBoxY 2 dataBBox 10
         "''overscan''" 1, OF _ rect ne fit os dfit data fo fd]
  show ?thesis by fastforce
qed

text \<open>
  The claim C1 as it was stated, for every pair of values, fails where the difference is
  no float: with the data at \<open>2 ^ 24\<close> and the overscan at \<open>1/2\<close> the subtraction rounds
  back to \<open>2 ^ 24\<close>, and the data pixels are left as they were.
\<close>

theorem overscanCorrectionF_rounding_counterexample:
  "float32 16777216 \<and> float32 (1 / 2) \<and>
   (\<exists>corrected.
      overscanCorrectionF roundingExposure roundingOverscanBBox ''MEAN'' ''overscan'' 1 = Inr corrected \<and>
      getPixel (getImage (getMaskedImage corrected)) 0 0 = 16777216 \<and>
      getPixel (getImage (getMaskedImage corrected)) 0 0 \<noteq> 16777216 - 1 / 2)"
proof -
  have f: "float32 16777216" "float32 (1 / 2)" by code_simp+
  have r: "fl32 (16777216 - fl32 (1 / 2)) = 16777216" by code_simp
  have im: "getImage (getMaskedImage roundingExposure) =
            [[16777216, 16777216], [16777216, 16777216], [1 / 2, 1 / 2]]"
    by (simp add: roundingExposure_def makeExposure_def numeral_2_eq_2)
  have sub: "subImage (getImage (getMaskedImage roundingExposure)) roundingOverscanBBox = Inr [[1 / 2, 1 / 2]]"
    by (simp add: im subImage_def isEmpty_def fitsIn_def roundingOverscanBBox_def getWidth_def
          getHeight_def numeral_2_eq_2)
  have st: "makeStatistics [[1 / 2, 1 / 2]] MEAN = Inr (1 / 2)"
    by (simp add: makeStatistics_def mean_def)
  have res: "overscanCorrectionF roundingExposure roundingOverscanBBox ''MEAN'' ''overscan'' 1 =
     Inr (roundingExposure\<lparr>getMaskedImage := minusScalarF (getMaskedImage roundingExposure) (1 / 2)\<rparr>)"
    by (simp add: overscanCorrectionF_def sub st)
  have "getPixel (getImage (minusScalarF (getMaskedImage roundingExposure) (1 / 2))) 0 0 = 16777216"
    using r by (simp add: minusScalarF_def im getPixel_def)
  with res f show ?thesis by simp
qed

text \<open>
  C2, as amended. With fit type \<open>POLY\<close>, \<open>CHEB\<close> or \<open>LEG\<close>, whatever the order,
  \<^verbatim>\<open>overscanCorrection\<close> computes no fit: it always raises, and when the overscan box
  fits in the exposure the exception is \<open>LsstException\<close>, "not implemented" for \<open>POLY\<close>
  and "an invalid overscan type" for \<open>CHEB\<close> and \<open>LEG\<close>.
\<close>

theorem overscanCorrection_poly_raises:
  assumes "fittype \<in> {''POLY'', ''CHEB'', ''LEG''}"
  shows "(\<exists>e. overscanCorrection exposure overscanBBox fittype overscanKeyword polyorder = Inl e) \<and>
         (fitsIn overscanBBox (getImage (getMaskedImage exposure)) \<longrightarrow>
            overscanCorrection exposure overscanBBox fittype overscanKeyword polyorder =
              Inl (LsstException (''overscanCorrection : '' @ fittype @
                     (if fittype = ''POLY'' then '' not implemented''
                      else '' an invalid overscan type''))))"
proof (cases "subImage (getImage (getMaskedImage exposure)) overscanBBox")
  case (Inl e)
  then have "\<not> fitsIn overscanBBox (getImage (getMaskedImage exposure))"
    using subImage_fits[of overscanBBox "getImage (getMaskedImage exposure)"] by auto
  with Inl show ?thesis by (simp add: overscanCorrection_def)
next
  case (Inr sub)
  with assms show ?thesis by (auto simp: overscanCorrection_def Let_def)
qed

theorem overscanCorrection_poly_raises_witness:
  "overscanCorrection polyExposureX overscanBBoxX ''CHEB'' ''overscan'' 1 =
     Inl (LsstException ''overscanCorrection : CHEB an invalid overscan type'')"
proof -
  have fit: "fitsIn overscanBBoxX (getImage (getMaskedImage polyExposureX))"
    by (simp add: fitsIn_def overscanBBoxX_def polyExposureX_def makeExposure_def
          getWidth_def getHeight_def upt_conv_Cons)
  from overscanCorrection_poly_raises[of "''CHEB''" polyExposureX overscanBBoxX "''overscan''" 1] fit
  show ?thesis by simp
qed

text \<open>
  The claim C2 as it was stated fails on the test's own plane: at order 1 with \<open>POLY\<close> no
  exposure comes back, so no data pixel of row 3 becomes \<open>10 - (2 + 3)\<close>.
\<close>

theorem overscanCorrection_poly_counterexample:
  "overscanCorrection polyExposureX overscanBBoxX ''POLY'' ''overscan'' 1 =
     Inl (LsstException ''overscanCorrection : POLY not implemented'') \<and>
   \<not> (\<exists>corrected.
         overscanCorrection polyExposureX overscanBBoxX ''POLY'' ''overscan'' 1 = Inr corrected \<and>
         getPixel (getImage (getMaskedImage corrected)) 0 3 = 10 - (2 + 3))"
proof -
  have fit: "fitsIn overscanBBoxX (getImage (getMaskedImage polyExposureX))"
    by (simp add: fitsIn_def overscanBBoxX_def polyExposureX_def makeExposure_def
          getWidth_def getHeight_def upt_conv_Cons)
  then obtain sub where "subImage (getImage (getMaskedImage polyExposureX)) overscanBBoxX = Inr sub"
    using subImage_fits by blast
  then have "overscanCorrection polyExposureX overscanBBoxX ''POLY'' ''overscan'' 1 =
     Inl (LsstException ''overscanCorrection : POLY not implemented'')"
    by (simp add: overscanCorrection_def)
  then show ?thesis by simp
qed

text \<open>
  C3, as amended. For every fit type outside \<open>MEAN\<close>, \<open>MEDIAN\<close>, \<open>MEDIAN_PER_ROW\<close>,
  \<open>POLY\<close>, \<open>CHEB\<close>, \<open>LEG\<close>, \<open>NATURAL_SPLINE\<close>, \<open>CUBIC_SPLINE\<close>, \<open>AKIMA_SPLINE\<close>,
  \<^verbatim>\<open>overscanCorrection\<close> raises. What it raises is the \<open>LsstException\<close> that names the
  fit type "an invalid overscan type" when the overscan box is empty or fits in the
  exposure, and the image library's \<open>LengthError\<close> when it does not fit: the overscan is
  cut out of the image before the fit type is looked at.
\<close>

theorem overscanCorrection_unknown_fittype:
  assumes "fittype \<notin> {''MEAN'', ''MEDIAN'', ''MEDIAN_PER_ROW'', ''POLY'', ''CHEB'', ''LEG'',
                       ''NATURAL_SPLINE'', ''CUBIC_SPLINE'', ''AKIMA_SPLINE''}"
  shows "overscanCorrection exposure overscanBBox fittype overscanKeyword polyorder =
           (if isEmpty overscanBBox \<or> fitsIn overscanBBox (getImage (getMaskedImage exposure))
            then Inl (LsstException
                        (''overscanCorrection : '' @ fittype @ '' an invalid overscan type''))
            else Inl LengthError)"
proof -
  from assms have ft: "fittype \<noteq> ''MEAN''" "fittype \<noteq> ''MEDIAN''" "fittype \<noteq> ''POLY''"
    by auto
  then show ?thesis
    by (simp add: overscanCorrection_def subImage_def Let_def)
qed

theorem overscanCorrection_unknown_fittype_witness:
  "overscanCorrection overscanExposureY overscanBBoxY ''SPLINE'' ''overscan'' 1 =
     Inl (LsstException ''overscanCorrection : SPLINE an invalid overscan type'')"
proof -
  have fit: "fitsIn overscanBBoxY (getImage (getMaskedImage overscanExposureY))"
    by (simp add: fitsIn_def overscanBBoxY_def overscanExposureY_image
          getWidth_replicate_append getHeight_def)
  have "''SPLINE'' \<notin> {''MEAN'', ''MEDIAN'', ''MEDIAN_PER_ROW'', ''POLY'', ''CHEB'', ''LEG'',
                       ''NATURAL_SPLINE'', ''CUBIC_SPLINE'', ''AKIMA_SPLINE''}"
    by simp
  from overscanCorrection_unknown_fittype[OF this, of overscanExposureY overscanBBoxY "''overscan''" 1] fit
  show ?thesis by simp
qed

text \<open>
  The claim C3 as it was stated fails for an overscan box that reaches one row below the
  test's plane: the call raises \<open>LengthError\<close>, not the error of an unknown fit type.
\<close>

theorem overscanCorrection_unknown_fittype_counterexample:
  "overscanCorrection overscanExposureY \<lparr>getMinX = 0, getMinY = 10, getMaxX = 9, getMaxY = 13\<rparr>
     ''SPLINE'' ''overscan'' 1 = Inl LengthError \<and>
   overscanCorrection overscanExposureY \<lparr>getMinX = 0, getMinY = 10, getMaxX = 9, getMaxY = 13\<rparr>
     ''SPLINE'' ''overscan'' 1 \<noteq>
     Inl (LsstException ''overscanCorrection : SPLINE an invalid overscan type'')"
proof -
  have "subImage (getImage (getMaskedImage overscanExposureY))
          \<lparr>getMinX = 0, getMinY = 10, getMaxX = 9, getMaxY = 13\<rparr> = Inl LengthError"
    by (simp add: subImage_def isEmpty_def fitsIn_def overscanExposureY_image
          getWidth_replicate_append getHeight_def)
  then show ?thesis by (simp add: overscanCorrection_def)
qed



subsection \<open>Flat-field correction\<close>















subsection \<open>Defect interpolation\<close>

lemma pyInt_nonneg: "0 \<le> fwhm \<Longrightarrow> pyInt fwhm = \<lfloor>fwhm\<rfloor>"
  by (simp add: pyInt_def)

lemma badRowExposure_pixels:
  "concat (getImage (getMaskedImage badRowExposure)) = [1, 1, 1, 4, 4, 4]"
  by (simp add: badRowExposure_def)

lemma badRow_clippedMean: "clippedMean 3 3 [1, 1, 1, 4, 4, 4] = 5 / 2"
proof -
  have m: "mean [1, 1, 1, 4, 4, 4] = 5 / 2" by (simp add: mean_def)
  have v: "sampleVariance [1, 1, 1, 4, 4, 4] = 27 / 10"
    by (simp add: sampleVariance_def m power2_eq_square)
  have "clipOnce 3 [1, 1, 1, 4, 4, 4] = [1, 1, 1, 4, 4, 4]"
    by (simp add: clipOnce_def m v power2_eq_square)
  then have "clipped 3 3 [1, 1, 1, 4, 4, 4] = [1, 1, 1, 4, 4, 4]"
    by (simp add: numeral_3_eq_3)
  then show ?thesis by (simp add: clippedMean_def m)
qed

lemma inDefects_badRow: "inDefects badRowDefects x y \<longleftrightarrow> x \<le> 2 \<and> y = 1"
  by (auto simp: inDefects_def badRowDefects_def boxContains_def)

lemma fallbackFill_badRow:
  "fallbackFill (getMaskedImage badRowExposure) psf badRowDefects v =
     Inr ((getMaskedImage badRowExposure)\<lparr>getImage := [[1, 1, 1], [v, v, v]]\<rparr>)"
  by (simp add: fallbackFill_def badRowExposure_def enumerate_eq_zip inDefects_badRow
        upt_conv_Cons)

lemma clippedMean_ones: "clippedMean 3 3 [1, 1, 1] = 1"
proof -
  have "clipOnce 3 [1, 1, 1] = [1, 1, 1]"
    by (simp add: clipOnce_def sampleVariance_def mean_def)
  then have "clipped 3 3 [1, 1, 1] = [1, 1, 1]" by (simp add: numeral_3_eq_3)
  then show ?thesis by (simp add: clippedMean_def mean_def)
qed

text \<open>
  C6, as amended. For every \<open>fwhm \<ge> 0\<close> the PSF kernel of \<^verbatim>\<open>interpolateDefectList\<close> is
  \<open>4 * \<lfloor>fwhm\<rfloor> + 1\<close> on a side. With no fallback value supplied, the interpolator is
  called once, on the unmodified masked image, with a single fallback value: the clipped
  mean of all the pixels of the image plane, whatever their mask bits and whether or not
  they lie in a defect. With a fallback value supplied, that value is passed as it is.
\<close>

theorem interpolateDefectList_fallback:
  "(0 \<le> fwhm \<longrightarrow> psfWidth (createPsf fwhm) = 4 * \<lfloor>fwhm\<rfloor> + 1 \<and>
                   psfHeight (createPsf fwhm) = 4 * \<lfloor>fwhm\<rfloor> + 1) \<and>
   (concat (getImage (getMaskedImage exposure)) \<noteq> [] \<longrightarrow>
      interpolateDefectList interpolateOverDefects exposure defectList fwhm None =
        (case interpolateOverDefects (getMaskedImage exposure) (createPsf fwhm) defectList
                (clippedMean 3 3 (concat (getImage (getMaskedImage exposure)))) of
           Inl e \<Rightarrow> Inl e
         | Inr mi \<Rightarrow> Inr (exposure\<lparr>getMaskedImage := mi\<rparr>))) \<and>
   interpolateDefectList interpolateOverDefects exposure defectList fwhm (Some fallbackValue) =
     (case interpolateOverDefects (getMaskedImage exposure) (createPsf fwhm) defectList fallbackValue of
        Inl e \<Rightarrow> Inl e
      | Inr mi \<Rightarrow> Inr (exposure\<lparr>getMaskedImage := mi\<rparr>))"
  by (simp add: createPsf_def Let_def pyInt_nonneg interpolateDefectList_def makeStatistics_def
        del: concat_eq_Nil_conv)

theorem interpolateDefectList_fallback_witness:
  "psfWidth (createPsf 2) = 9 \<and>
   (\<exists>corrected.
      interpolateDefectList fallbackFill badRowExposure badRowDefects 2 None = Inr corrected \<and>
      getImage (getMaskedImage corrected) = [[1, 1, 1], [5 / 2, 5 / 2, 5 / 2]])"
proof -
  note t = interpolateDefectList_fallback[of 2 badRowExposure fallbackFill badRowDefects 0]
  have w: "psfWidth (createPsf 2) = 9" using t by simp
  have ne: "concat (getImage (getMaskedImage badRowExposure)) \<noteq> []"
    by (simp add: badRowExposure_pixels)
  with t have "interpolateDefectList fallbackFill badRowExposure badRowDefects 2 None =
     Inr (badRowExposure\<lparr>getMaskedImage :=
            (getMaskedImage badRowExposure)\<lparr>getImage := [[1, 1, 1], [5 / 2, 5 / 2, 5 / 2]]\<rparr>\<rparr>)"
    by (simp add: badRowExposure_pixels badRow_clippedMean fallbackFill_badRow
          del: concat_eq_Nil_conv)
  with w show ?thesis by simp
qed

text \<open>
  The claim C6 as it was stated fails on a plane whose second row is a defect marked
  \<open>BAD\<close>: the code's fallback is 5/2, the mean over good and bad pixels alike, and the
  defect row is filled with it, while the clipped mean that excludes the defect pixels is
  1. And for \<open>fwhm = -1/2\<close> the kernel size is 1, not \<open>4 * \<lfloor>fwhm\<rfloor> + 1 = -3\<close>, for
  Python's \<^verbatim>\<open>int\<close> truncates towards zero.
\<close>

theorem interpolateDefectList_counterexample:
  "(\<exists>corrected.
      interpolateDefectList fallbackFill badRowExposure badRowDefects 2 None = Inr corrected \<and>
      getImage (getMaskedImage corrected) = [[1, 1, 1], [5 / 2, 5 / 2, 5 / 2]]) \<and>
   spec_fallbackValue badRowExposure badRowDefects = Inr 1 \<and>
   psfWidth (createPsf (- 1 / 2)) = 1 \<and> 4 * \<lfloor>- 1 / 2 :: rat\<rfloor> + 1 = - 3"
proof -
  have a: "interpolateDefectList fallbackFill badRowExposure badRowDefects 2 None =
     Inr (badRowExposure\<lparr>getMaskedImage :=
            (getMaskedImage badRowExposure)\<lparr>getImage := [[1, 1, 1], [5 / 2, 5 / 2, 5 / 2]]\<rparr>\<rparr>)"
    by (simp add: interpolateDefectList_def Let_def makeStatistics_def badRowExposure_pixels
          badRow_clippedMean fallbackFill_badRow del: concat_eq_Nil_conv)
  have bad: "getPlaneBitMask (getMask (getMaskedImage badRowExposure)) ''BAD'' = Inr 1"
    and sat: "getPlaneBitMask (getMask (getMaskedImage badRowExposure)) ''SAT'' = Inr 2"
    by (simp_all add: getPlaneBitMask_def badRowExposure_def defaultMaskPlaneDict_def)
  have b: "spec_fallbackValue badRowExposure badRowDefects = Inr 1"
    by (simp add: spec_fallbackValue_def Let_def bad sat pixelsWithXY_def enumerate_eq_zip
          inDefects_badRow upt_conv_Cons clippedMean_ones)
       (simp add: badRowExposure_def clippedMean_ones)
  have "\<lceil>- (1 / 2) :: rat\<rceil> = 0" by (rule ceiling_unique) simp_all
  then have c: "psfWidth (createPsf (- 1 / 2)) = 1"
    by (simp add: createPsf_def pyInt_def Let_def)
  have "\<lfloor>- (1 / 2) :: rat\<rfloor> = - 1" by (rule floor_unique) simp_all
  then have d: "4 * \<lfloor>- 1 / 2 :: rat\<rfloor> + 1 = - 3" by simp
  from a b c d show ?thesis by simp
qed

subsection \<open>Footprints\<close>

lemma runs_bounds:
  "(a, b) \<in> set (runs bs x) \<Longrightarrow> x \<le> a \<and> a \<le> b \<and> b < x + length bs"
proof (induction bs arbitrary: x a b)
  case Nil
  then show ?case by simp
next
  case (Cons c bs)
  show ?case
  proof (cases c)
    case False
    with Cons.prems have "(a, b) \<in> set (runs bs (Suc x))" by simp
    from Cons.IH[OF this] show ?thesis by simp
  next
    case True
    show ?thesis
    proof (cases "runs bs (Suc x)")
      case Nil
      with True Cons.prems show ?thesis by simp
    next
      case (Cons h rest)
      obtain x0 x1 where h: "h = (x0, x1)" by (cases h)
      have hin: "(x0, x1) \<in> set (runs bs (Suc x))" using Cons h by simp
      from Cons.IH[OF hin] have hb: "Suc x \<le> x0" "x0 \<le> x1" "x1 < Suc x + length bs" by simp_all
      have rest: "\<And>p q. (p, q) \<in> set rest \<Longrightarrow> Suc x \<le> p \<and> p \<le> q \<and> q < Suc x + length bs"
        using Cons.IH[of _ _ "Suc x"] Cons by auto
      from True Cons h Cons.prems
      consider "(a, b) = (x, x1)" "x0 = Suc x" | "(a, b) = (x, x)" | "(a, b) = (x0, x1)" | "(a, b) \<in> set rest"
        by (auto split: if_splits)
      then show ?thesis
      proof cases
        case 4
        from rest[OF 4] show ?thesis by simp
      qed (use hb in auto)
    qed
  qed
qed

lemma runs_sound:
  "(a, b) \<in> set (runs bs x) \<Longrightarrow> a \<le> i \<Longrightarrow> i \<le> b \<Longrightarrow> bs ! (i - x)"
proof (induction bs arbitrary: x a b)
  case Nil
  then show ?case by simp
next
  case (Cons c bs)
  show ?case
  proof (cases c)
    case False
    with Cons.prems have in': "(a, b) \<in> set (runs bs (Suc x))" by simp
    from runs_bounds[OF in'] Cons.prems have "Suc x \<le> i" by simp
    then have "i - x = Suc (i - Suc x)" by simp
    with Cons.IH[OF in' Cons.prems(2,3)] show ?thesis by simp
  next
    case True
    have step: "bs ! (i - Suc x)" if "(p, q) \<in> set (runs bs (Suc x))" "p \<le> i" "i \<le> q" for p q
      using Cons.IH[OF that] .
    have later: "(c # bs) ! (i - x)" if "(p, q) \<in> set (runs bs (Suc x))" "p \<le> i" "i \<le> q" for p q
    proof -
      from runs_bounds[OF that(1)] that(2) have "Suc x \<le> i" by simp
      then have "i - x = Suc (i - Suc x)" by simp
      with step[OF that] show ?thesis by simp
    qed
    show ?thesis
    proof (cases "runs bs (Suc x)")
      case Nil
      with True Cons.prems show ?thesis by simp
    next
      case (Cons h rest)
      obtain x0 x1 where h: "h = (x0, x1)" by (cases h)
      have hin: "(x0, x1) \<in> set (runs bs (Suc x))" using Cons h by simp
      have restin: "\<And>p q. (p, q) \<in> set rest \<Longrightarrow> (p, q) \<in> set (runs bs (Suc x))"
        using Cons by simp
      from True Cons h Cons.prems(1)
      consider "(a, b) = (x, x1)" "x0 = Suc x" | "(a, b) = (x, x)" | "(a, b) = (x0, x1)" | "(a, b) \<in> set rest"
        by (auto split: if_splits)
      then show ?thesis
      proof cases
        case 1
        show ?thesis
        proof (cases "i = x")
          case True
          with \<open>c\<close> show ?thesis by simp
        next
          case False
          with 1 Cons.prems have "x0 \<le> i" "i \<le> x1" by simp_all
          from later[OF hin this] show ?thesis .
        qed
      next
        case 2
        with Cons.prems True show ?thesis by simp
      next
        case 3
        with Cons.prems have "x0 \<le> i" "i \<le> x1" by simp_all
        from later[OF hin this] show ?thesis .
      next
        case 4
        from later[OF restin[OF 4] Cons.prems(2,3)] show ?thesis .
      qed
    qed
  qed
qed

lemma runs_complete:
  "i < length bs \<Longrightarrow> bs ! i \<Longrightarrow> \<exists>(a, b) \<in> set (runs bs x). a \<le> x + i \<and> x + i \<le> b"
proof (induction bs arbitrary: x i)
  case Nil
  then show ?case by simp
next
  case (Cons c bs)
  show ?case
  proof (cases i)
    case 0
    with Cons.prems have c: c by simp
    show ?thesis
    proof (cases "runs bs (Suc x)")
      case Nil
      with c 0 show ?thesis by simp
    next
      case (Cons h rest)
      obtain x0 x1 where h: "h = (x0, x1)" by (cases h)
      have "(x0, x1) \<in> set (runs bs (Suc x))" using Cons h by simp
      from runs_bounds[OF this] have "Suc x \<le> x0" "x0 \<le> x1" by simp_all
      with c 0 Cons h show ?thesis by auto
    qed
  next
    case (Suc j)
    with Cons.prems have "j < length bs" "bs ! j" by simp_all
    from Cons.IH[OF this, of "Suc x"] obtain a b
      where ab: "(a, b) \<in> set (runs bs (Suc x))" "a \<le> Suc x + j" "Suc x + j \<le> b"
      by auto
    show ?thesis
    proof (cases c)
      case False
      with ab Suc show ?thesis by auto
    next
      case True
      from ab obtain h rest where hr: "runs bs (Suc x) = h # rest" by (cases "runs bs (Suc x)") auto
      obtain x0 x1 where h: "h = (x0, x1)" by (cases h)
      from runs_bounds[OF ab(1)] have xa: "Suc x \<le> a" by simp
      show ?thesis
      proof (cases "(a, b) = (x0, x1)")
        case True
        with \<open>c\<close> hr h ab Suc xa show ?thesis by auto
      next
        case False
        with ab hr h have "(a, b) \<in> set rest" by auto
        with \<open>c\<close> hr h ab Suc show ?thesis by auto
      qed
    qed
  qed
qed

lemma runs_distinct: "distinct (runs bs x)"
proof (induction bs arbitrary: x)
  case Nil
  then show ?case by simp
next
  case (Cons c bs)
  have lb: "\<And>p q. (p, q) \<in> set (runs bs (Suc x)) \<Longrightarrow> Suc x \<le> p"
    using runs_bounds by blast
  show ?case
  proof (cases "runs bs (Suc x)")
    case Nil
    then show ?thesis by simp
  next
    case (Cons h rest)
    obtain x0 x1 where h: "h = (x0, x1)" by (cases h)
    have d: "distinct (h # rest)" using Cons.IH[of "Suc x"] Cons by simp
    have nx: "\<And>q. (x, q) \<notin> set (h # rest)" using lb Cons by fastforce
    show ?thesis using d nx Cons h by (auto split: if_splits)
  qed
qed

lemma planeSpans_iff:
  "(y, a, b) \<in> set (planeSpans im) \<longleftrightarrow> y < length im \<and> (a, b) \<in> set (runs (im ! y) 0)"
proof
  assume "(y, a, b) \<in> set (planeSpans im)"
  then obtain y' r where e: "(y', r) \<in> set (enumerate 0 im)" and s: "(y, a, b) \<in> set (rowSpans y' r)"
    by (auto simp: planeSpans_def)
  from s have "y' = y" "(a, b) \<in> set (runs r 0)" by (auto simp: rowSpans_def)
  with e show "y < length im \<and> (a, b) \<in> set (runs (im ! y) 0)"
    by (auto simp: in_set_enumerate_eq)
next
  assume a: "y < length im \<and> (a, b) \<in> set (runs (im ! y) 0)"
  then have "(y, im ! y) \<in> set (enumerate 0 im)" by (simp add: in_set_enumerate_eq)
  moreover from a have "(y, a, b) \<in> set (rowSpans y (im ! y))" by (auto simp: rowSpans_def)
  ultimately show "(y, a, b) \<in> set (planeSpans im)"
    unfolding planeSpans_def by force
qed

lemma planeSpans_cover:
  "(\<exists>s \<in> set (planeSpans im). inSpan s x y) \<longleftrightarrow> hasPixel im x y \<and> getPixel im x y"
proof
  assume "\<exists>s \<in> set (planeSpans im). inSpan s x y"
  then obtain a b where s: "(y, a, b) \<in> set (planeSpans im)" and ab: "a \<le> x" "x \<le> b"
    by (auto simp: inSpan_def)
  from s have y: "y < length im" and r: "(a, b) \<in> set (runs (im ! y) 0)"
    by (simp_all add: planeSpans_iff)
  from runs_bounds[OF r] ab have "x < length (im ! y)" by simp
  moreover from runs_sound[OF r ab] have "im ! y ! x" by simp
  ultimately show "hasPixel im x y \<and> getPixel im x y"
    using y by (simp add: hasPixel_def getPixel_def)
next
  assume "hasPixel im x y \<and> getPixel im x y"
  then have y: "y < length im" and x: "x < length (im ! y)" and v: "im ! y ! x"
    by (simp_all add: hasPixel_def getPixel_def)
  from runs_complete[OF x v, of 0] obtain a b
    where "(a, b) \<in> set (runs (im ! y) 0)" "a \<le> x" "x \<le> b"
    by auto
  with y have "(y, a, b) \<in> set (planeSpans im)" "inSpan (y, a, b) x y"
    by (simp_all add: planeSpans_iff inSpan_def)
  then show "\<exists>s \<in> set (planeSpans im). inSpan s x y" by blast
qed

lemma rowSpans_distinct: "distinct (rowSpans y bs)"
  by (simp add: rowSpans_def distinct_map runs_distinct inj_on_def)

lemma rowSpans_row: "s \<in> set (rowSpans y bs) \<Longrightarrow> fst s = y"
  by (auto simp: rowSpans_def)

lemma enumerate_spans_distinct:
  "distinct (concat (map (\<lambda>(y, r). rowSpans y r) (enumerate n im)))"
proof (induction im arbitrary: n)
  case Nil
  then show ?case by simp
next
  case (Cons r im)
  have later: "n < fst s" if "s \<in> set (concat (map (\<lambda>(y, r). rowSpans y r) (enumerate (Suc n) im)))" for s
  proof -
    from that obtain y r' where "(y, r') \<in> set (enumerate (Suc n) im)" "s \<in> set (rowSpans y r')"
      by auto
    then show ?thesis using rowSpans_row[of s y r'] by (auto simp: in_set_enumerate_eq)
  qed
  have "set (rowSpans n r) \<inter> set (concat (map (\<lambda>(y, r). rowSpans y r) (enumerate (Suc n) im))) = {}"
    using later rowSpans_row[of _ n r] by fastforce
  with Cons.IH[of "Suc n"] show ?case
    by (simp add: rowSpans_distinct)
qed

lemma planeSpans_distinct: "distinct (planeSpans im)"
  unfolding planeSpans_def by (rule enumerate_spans_distinct)

lemma concat_filter_split:
  "set (concat (filter P xs)) \<union> set (concat (filter (\<lambda>x. \<not> P x) xs)) = set (concat xs)"
  by (induction xs) auto

lemma insertSpan_spans: "set (concat (insertSpan s fps)) = insert s (set (concat fps))"
proof -
  have "set (concat (filter (\<lambda>fp. \<exists>t \<in> set fp. touches s t) fps)) \<union>
        set (concat (filter (\<lambda>fp. \<not> (\<exists>t \<in> set fp. touches s t)) fps)) = set (concat fps)"
    by (rule concat_filter_split)
  then show ?thesis
    unfolding insertSpan_def by (simp del: set_concat)
qed

lemma fold_insertSpan_spans:
  "set (concat (fold insertSpan ss fps)) = set ss \<union> set (concat fps)"
  by (induction ss arbitrary: fps) (auto simp add: insertSpan_spans simp del: set_concat)

lemma makeFootprintSet_cover:
  "(\<exists>fp \<in> set (makeFootprintSet im thresh). inFootprint fp x y) \<longleftrightarrow>
   hasPixel im x y \<and> getPixel im x y > thresh"
proof -
  let ?b = "map (map (\<lambda>p. p > thresh)) im"
  have spans: "set (concat (fold insertSpan (planeSpans ?b) [])) = set (planeSpans ?b)"
    by (simp only: fold_insertSpan_spans) simp
  have "(\<exists>fp \<in> set (makeFootprintSet im thresh). inFootprint fp x y) \<longleftrightarrow>
        (\<exists>s \<in> set (concat (fold insertSpan (planeSpans ?b) [])). inSpan s x y)"
    by (auto simp: makeFootprintSet_def inFootprint_def)
  also have "\<dots> \<longleftrightarrow> (\<exists>s \<in> set (planeSpans ?b). inSpan s x y)"
    by (simp only: spans)
  also have "\<dots> \<longleftrightarrow> hasPixel ?b x y \<and> getPixel ?b x y"
    by (rule planeSpans_cover)
  also have "\<dots> \<longleftrightarrow> hasPixel im x y \<and> getPixel im x y > thresh"
    by (auto simp: hasPixel_def getPixel_def)
  finally show ?thesis .
qed

lemma map_enumerate_snd: "map (\<lambda>(y, r). f r) (enumerate n xs) = map f xs"
  by (induction xs arbitrary: n) simp_all

lemma setMaskFromFootprint_shape:
  "map length (getArray (setMaskFromFootprint m fp bitmask)) = map length (getArray m)"
proof -
  have "map length (getArray (setMaskFromFootprint m fp bitmask)) =
        map (\<lambda>(y, r). length r) (enumerate 0 (getArray m))"
    by (simp add: setMaskFromFootprint_def comp_def case_prod_unfold)
  then show ?thesis by (simp only: map_enumerate_snd)
qed

lemma setMaskFromFootprint_dict:
  "getMaskPlaneDict (setMaskFromFootprint m fp bitmask) = getMaskPlaneDict m"
  by (simp add: setMaskFromFootprint_def)

lemma setMaskFromFootprint_pixel:
  assumes "hasPixel (getArray m) x y"
  shows "getPixel (getArray (setMaskFromFootprint m fp bitmask)) x y =
           (if inFootprint fp x y then getPixel (getArray m) x y OR bitmask else getPixel (getArray m) x y)"
  using assms
  by (simp add: setMaskFromFootprint_def hasPixel_def getPixel_def nth_enumerate_eq)

lemma hasPixel_shape: "map length a = map length b \<Longrightarrow> hasPixel a x y = hasPixel b x y"
proof -
  assume s: "map length a = map length b"
  then have l: "length a = length b" by (metis length_map)
  have "length (a ! y) = length (b ! y)" if "y < length a"
    using that s l by (metis nth_map)
  with l show ?thesis by (auto simp: hasPixel_def)
qed

lemma saturationLoop_marks:
  assumes "getPlaneBitMask (getMask mi) maskName = Inr bitmask"
  shows "\<exists>bboxes' mi'.
           saturationLoop fpList True maskName mi bboxes = Inr (bboxes', mi') \<and>
           getImage mi' = getImage mi \<and> getVariance mi' = getVariance mi \<and>
           getMaskPlaneDict (getMask mi') = getMaskPlaneDict (getMask mi) \<and>
           map length (getArray (getMask mi')) = map length (getArray (getMask mi)) \<and>
           (\<forall>x y. hasPixel (getArray (getMask mi)) x y \<longrightarrow>
              getPixel (getArray (getMask mi')) x y =
                (if \<exists>fp \<in> set fpList. inFootprint fp x y
                 then getPixel (getArray (getMask mi)) x y OR bitmask
                 else getPixel (getArray (getMask mi)) x y))"
  using assms
proof (induction fpList arbitrary: mi bboxes)
  case Nil
  then show ?case by simp
next
  case (Cons fp fpList)
  let ?mi1 = "mi\<lparr>getMask := setMaskFromFootprint (getMask mi) fp bitmask\<rparr>"
  have bm: "getPlaneBitMask (getMask ?mi1) maskName = Inr bitmask"
    using Cons.prems by (simp add: getPlaneBitMask_def setMaskFromFootprint_dict)
  from Cons.IH[OF bm, of "bboxes @ [footprintToBBoxList fp]"] obtain bboxes' mi'
    where r: "saturationLoop fpList True maskName ?mi1 (bboxes @ [footprintToBBoxList fp]) = Inr (bboxes', mi')"
      and im: "getImage mi' = getImage ?mi1" "getVariance mi' = getVariance ?mi1"
      and d: "getMaskPlaneDict (getMask mi') = getMaskPlaneDict (getMask ?mi1)"
      and sh: "map length (getArray (getMask mi')) = map length (getArray (getMask ?mi1))"
      and px: "\<forall>x y. hasPixel (getArray (getMask ?mi1)) x y \<longrightarrow>
              getPixel (getArray (getMask mi')) x y =
                (if \<exists>fp \<in> set fpList. inFootprint fp x y
                 then getPixel (getArray (getMask ?mi1)) x y OR bitmask
                 else getPixel (getArray (getMask ?mi1)) x y)"
    by blast
  have sh1: "map length (getArray (getMask ?mi1)) = map length (getArray (getMask mi))"
    by (simp add: setMaskFromFootprint_shape)
  have res: "saturationLoop (fp # fpList) True maskName mi bboxes = Inr (bboxes', mi')"
    using Cons.prems r by simp
  have pix: "getPixel (getArray (getMask mi')) x y =
                (if \<exists>f \<in> set (fp # fpList). inFootprint f x y
                 then getPixel (getArray (getMask mi)) x y OR bitmask
                 else getPixel (getArray (getMask mi)) x y)"
    if h: "hasPixel (getArray (getMask mi)) x y" for x y
  proof -
    from h have h1: "hasPixel (getArray (getMask ?mi1)) x y"
      using hasPixel_shape[OF sh1] by simp
    have p1: "getPixel (getArray (getMask ?mi1)) x y =
           (if inFootprint fp x y then getPixel (getArray (getMask mi)) x y OR bitmask
            else getPixel (getArray (getMask mi)) x y)"
      using setMaskFromFootprint_pixel[OF h] by simp
    from px h1 have "getPixel (getArray (getMask mi')) x y =
                (if \<exists>fp \<in> set fpList. inFootprint fp x y
                 then getPixel (getArray (getMask ?mi1)) x y OR bitmask
                 else getPixel (getArray (getMask ?mi1)) x y)"
      by blast
    with p1 show ?thesis by (auto simp: or.assoc)
  qed
  from res im d sh sh1 pix show ?case
    by (auto simp: setMaskFromFootprint_dict)
qed

lemma saturatedExposure_parts:
  "getImage (getMaskedImage saturatedExposure) = [[1, 1, 1, 1], [1, 9, 9, 1], [1, 1, 9, 1], [1, 1, 1, 1]]"
  "getArray (getMask (getMaskedImage saturatedExposure)) =
     [[0, 0, 0, 0], [0, 0, 0, 0], [0, 0, 0, 0], [0, 0, 0, 0]]"
  "getMaskPlaneDict (getMask (getMaskedImage saturatedExposure)) = defaultMaskPlaneDict"
  by (simp_all add: saturatedExposure_def makeExposure_def)

subsection \<open>Saturation detection\<close>

text \<open>
  C7. \<^verbatim>\<open>saturationDetection\<close> at a saturation level, with masking on and the plane \<open>SAT\<close>
  registered, returns normally; it ORs the \<open>SAT\<close> bit into the mask of exactly the pixels
  whose value is above the level and leaves every other mask pixel as it was. On a mask
  that was zero, the pixels above the level end with the \<open>SAT\<close> bit alone and all the
  others with 0. The image plane is not changed.
\<close>

theorem saturationDetection_marks:
  assumes sat: "map_of (getMaskPlaneDict (getMask (getMaskedImage exposure))) ''SAT'' = Some i"
    and shape: "map length (getArray (getMask (getMaskedImage exposure))) =
                map length (getImage (getMaskedImage exposure))"
  shows "\<exists>bboxes marked.
           saturationDetection exposure saturation True ''SAT'' = Inr (bboxes, marked) \<and>
           getImage (getMaskedImage marked) = getImage (getMaskedImage exposure) \<and>
           (\<forall>x y. hasPixel (getImage (getMaskedImage exposure)) x y \<longrightarrow>
              getPixel (getArray (getMask (getMaskedImage marked))) x y =
                (if getPixel (getImage (getMaskedImage exposure)) x y > saturation
                 then getPixel (getArray (getMask (getMaskedImage exposure))) x y OR push_bit i 1
                 else getPixel (getArray (getMask (getMaskedImage exposure))) x y)) \<and>
           (\<forall>x y. hasPixel (getImage (getMaskedImage exposure)) x y \<and>
                  getPixel (getArray (getMask (getMaskedImage exposure))) x y = 0 \<longrightarrow>
              getPixel (getArray (getMask (getMaskedImage marked))) x y =
                (if getPixel (getImage (getMaskedImage exposure)) x y > saturation
                 then push_bit i 1 else 0))"
proof -
  let ?mi = "getMaskedImage exposure"
  let ?fps = "makeFootprintSet (getImage ?mi) saturation"
  have bm: "getPlaneBitMask (getMask ?mi) ''SAT'' = Inr (push_bit i 1)"
    using sat by (simp add: getPlaneBitMask_def)
  from saturationLoop_marks[OF bm, of ?fps "[]"] obtain bboxes mi'
    where r: "saturationLoop ?fps True ''SAT'' ?mi [] = Inr (bboxes, mi')"
      and im: "getImage mi' = getImage ?mi"
      and px: "\<forall>x y. hasPixel (getArray (getMask ?mi)) x y \<longrightarrow>
              getPixel (getArray (getMask mi')) x y =
                (if \<exists>fp \<in> set ?fps. inFootprint fp x y
                 then getPixel (getArray (getMask ?mi)) x y OR push_bit i 1
                 else getPixel (getArray (getMask ?mi)) x y)"
    by blast
  let ?marked = "exposure\<lparr>getMaskedImage := mi'\<rparr>"
  have res: "saturationDetection exposure saturation True ''SAT'' = Inr (bboxes, ?marked)"
    using r by (simp add: saturationDetection_def Let_def)
  have main: "getPixel (getArray (getMask (getMaskedImage ?marked))) x y =
                (if getPixel (getImage ?mi) x y > saturation
                 then getPixel (getArray (getMask ?mi)) x y OR push_bit i 1
                 else getPixel (getArray (getMask ?mi)) x y)"
    if h: "hasPixel (getImage ?mi) x y" for x y
  proof -
    from h have "hasPixel (getArray (getMask ?mi)) x y"
      using hasPixel_shape[OF shape] by simp
    with px have "getPixel (getArray (getMask mi')) x y =
                (if \<exists>fp \<in> set ?fps. inFootprint fp x y
                 then getPixel (getArray (getMask ?mi)) x y OR push_bit i 1
                 else getPixel (getArray (getMask ?mi)) x y)"
      by blast
    then show ?thesis using h by (simp add: makeFootprintSet_cover)
  qed
  from res im main show ?thesis by auto
qed

theorem saturationDetection_marks_witness:
  "\<exists>bboxes marked.
     saturationDetection saturatedExposure 5 True ''SAT'' = Inr (bboxes, marked) \<and>
     getPixel (getArray (getMask (getMaskedImage marked))) 2 1 = 2 \<and>
     getPixel (getArray (getMask (getMaskedImage marked))) 1 2 = 0"
proof -
  have sat: "map_of (getMaskPlaneDict (getMask (getMaskedImage saturatedExposure))) ''SAT'' = Some 1"
    by (simp add: saturatedExposure_parts defaultMaskPlaneDict_def)
  have shape: "map length (getArray (getMask (getMaskedImage saturatedExposure))) =
               map length (getImage (getMaskedImage saturatedExposure))"
    by (simp add: saturatedExposure_parts)
  from saturationDetection_marks[OF sat shape, of 5] obtain bboxes marked
    where r: "saturationDetection saturatedExposure 5 True ''SAT'' = Inr (bboxes, marked)"
      and px: "\<forall>x y. hasPixel (getImage (getMaskedImage saturatedExposure)) x y \<and>
                  getPixel (getArray (getMask (getMaskedImage saturatedExposure))) x y = 0 \<longrightarrow>
              getPixel (getArray (getMask (getMaskedImage marked))) x y =
                (if getPixel (getImage (getMaskedImage saturatedExposure)) x y > 5
                 then push_bit 1 1 else 0)"
    by blast
  have a: "getPixel (getArray (getMask (getMaskedImage marked))) 2 1 = 2"
    using px[rule_format, of 2 1]
    by (simp add: saturatedExposure_parts hasPixel_def getPixel_def)
  have b: "getPixel (getArray (getMask (getMaskedImage marked))) 1 2 = 0"
    using px[rule_format, of 1 2]
    by (simp add: saturatedExposure_parts hasPixel_def getPixel_def)
  from r a b show ?thesis by blast
qed

subsection \<open>Defects from a mask\<close>

lemma insertSpan_apart:
  "\<forall>t \<in> set (concat fps). \<not> touches s t \<Longrightarrow> insertSpan s fps = [s] # fps"
proof -
  assume a: "\<forall>t \<in> set (concat fps). \<not> touches s t"
  then have "\<forall>fp \<in> set fps. \<not> (\<exists>t \<in> set fp. touches s t)" by auto
  then have "filter (\<lambda>fp. \<exists>t \<in> set fp. touches s t) fps = []"
    and "filter (\<lambda>fp. \<not> (\<exists>t \<in> set fp. touches s t)) fps = fps"
    by (simp_all add: filter_empty_conv filter_id_conv)
  then show ?thesis unfolding insertSpan_def by simp
qed

lemma fold_insertSpan_apart:
  "\<forall>s \<in> set ss. \<forall>t \<in> set ss \<union> set (concat fps). \<not> touches s t \<Longrightarrow>
   fold insertSpan ss fps = map (\<lambda>s. [s]) (rev ss) @ fps"
proof (induction ss arbitrary: fps)
  case Nil
  then show ?case by simp
next
  case (Cons s ss)
  have 1: "insertSpan s fps = [s] # fps"
    using Cons.prems by (intro insertSpan_apart) auto
  have "\<forall>u \<in> set ss. \<forall>t \<in> set ss \<union> set (concat ([s] # fps)). \<not> touches u t"
    using Cons.prems by auto
  from Cons.IH[OF this] 1 show ?case by simp
qed

lemma makeFootprintSet_apart:
  assumes "\<forall>s \<in> set (planeSpans (map (map (\<lambda>p. p > thresh)) im)).
           \<forall>t \<in> set (planeSpans (map (map (\<lambda>p. p > thresh)) im)). \<not> touches s t"
  shows "makeFootprintSet im thresh = map (\<lambda>s. [s]) (planeSpans (map (map (\<lambda>p. p > thresh)) im))"
  using fold_insertSpan_apart[of "planeSpans (map (map (\<lambda>p. p > thresh)) im)" "[]"] assms
  by (simp add: makeFootprintSet_def rev_map)

lemma word_detected: "(of_nat (unat (v :: 16 word)) :: rat) > 1 / 2 \<longleftrightarrow> v \<noteq> 0"
proof -
  have "(of_nat (unat v) :: rat) > 1 / 2 \<longleftrightarrow> unat v \<noteq> 0"
    by (cases "unat v") (simp_all add: field_simps)
  then show ?thesis by (simp add: unat_eq_0)
qed

text \<open>The spans of a plane whose marked pixels lie apart are those pixels, one span each.\<close>

lemma isolated_spans:
  assumes inplane: "\<forall>(x, y) \<in> set ps. hasPixel bim x y"
    and marked: "\<forall>x y. hasPixel bim x y \<longrightarrow> (getPixel bim x y \<longleftrightarrow> (x, y) \<in> set ps)"
    and apart: "\<forall>(x, y) \<in> set ps. \<forall>(x', y') \<in> set ps. (x, y) \<noteq> (x', y') \<longrightarrow>
                  \<not> (x \<le> Suc x' \<and> x' \<le> Suc x \<and> y \<le> Suc y' \<and> y' \<le> Suc y)"
  shows "set (planeSpans bim) = (\<lambda>(x, y). (y, x, x)) ` set ps"
proof (intro set_eqI iffI)
  fix s
  assume s: "s \<in> set (planeSpans bim)"
  obtain y a b where sy: "s = (y, a, b)" by (cases s)
  from s sy have r: "y < length bim" "(a, b) \<in> set (runs (bim ! y) 0)"
    by (simp_all add: planeSpans_iff)
  from runs_bounds[OF r(2)] have ab: "a \<le> b" "b < length (bim ! y)" by simp_all
  have cov: "hasPixel bim x y \<and> getPixel bim x y" if "a \<le> x" "x \<le> b" for x
  proof -
    have "\<exists>t \<in> set (planeSpans bim). inSpan t x y"
      using s sy that by (auto simp: inSpan_def)
    then show ?thesis by (simp add: planeSpans_cover)
  qed
  from cov[of a] ab marked have pa: "(a, y) \<in> set ps" by auto
  have "a = b"
  proof (rule ccontr)
    assume "a \<noteq> b"
    with ab have "Suc a \<le> b" by simp
    with cov[of "Suc a"] marked have "(Suc a, y) \<in> set ps" by auto
    with apart pa show False by fastforce
  qed
  with pa sy show "s \<in> (\<lambda>(x, y). (y, x, x)) ` set ps" by force
next
  fix s
  assume "s \<in> (\<lambda>(x, y). (y, x, x)) ` set ps"
  then obtain x y where p: "(x, y) \<in> set ps" and sy: "s = (y, x, x)" by auto
  from p inplane marked have "hasPixel bim x y \<and> getPixel bim x y" by auto
  then obtain t where t: "t \<in> set (planeSpans bim)" "inSpan t x y"
    using planeSpans_cover[of bim x y] by blast
  obtain a b where ty: "t = (y, a, b)" "a \<le> x" "x \<le> b"
    using t(2) by (cases t) (auto simp: inSpan_def)
  from t ty have r: "y < length bim" "(a, b) \<in> set (runs (bim ! y) 0)"
    by (simp_all add: planeSpans_iff)
  have cov: "hasPixel bim x' y \<and> getPixel bim x' y" if "a \<le> x'" "x' \<le> b" for x'
  proof -
    have "\<exists>t \<in> set (planeSpans bim). inSpan t x' y"
      using t ty that by (auto simp: inSpan_def)
    then show ?thesis by (simp add: planeSpans_cover)
  qed
  have "a = x"
  proof (rule ccontr)
    assume "a \<noteq> x"
    with ty have "a \<le> x - 1" "x - 1 \<le> b" "Suc (x - 1) = x" by simp_all
    with cov[of "x - 1"] marked have "(x - 1, y) \<in> set ps" by auto
    with apart p \<open>Suc (x - 1) = x\<close> show False by fastforce
  qed
  moreover have "b = x"
  proof (rule ccontr)
    assume "b \<noteq> x"
    with ty have "a \<le> Suc x" "Suc x \<le> b" by simp_all
    with cov[of "Suc x"] marked have "(Suc x, y) \<in> set ps" by auto
    with apart p show False by fastforce
  qed
  ultimately show "s \<in> set (planeSpans bim)" using t ty sy by simp
qed

lemma pixelDefect_inj: "inj pixelDefect"
  by (auto simp: inj_on_def pixelDefect_def)

lemma hasPixel_map: "hasPixel (map (map f) im) x y = hasPixel im x y"
  by (auto simp: hasPixel_def)

lemma getPixel_map_has: "hasPixel im x y \<Longrightarrow> getPixel (map (map f) im) x y = f (getPixel im x y)"
  by (simp add: hasPixel_def getPixel_def)

lemma single_span_defects:
  "concat (map (\<lambda>fp. map Defect (footprintToBBoxList fp)) (map (\<lambda>s. [s]) ss)) =
   map (\<lambda>s. Defect (spanBBox s)) ss"
  by (induction ss) (simp_all add: footprintToBBoxList_def)

lemma filter_upt_least:
  "i < n \<Longrightarrow> P i \<Longrightarrow> \<forall>j<i. \<not> P j \<Longrightarrow> \<exists>rest. filter P [0..<n] = i # rest"
proof (induction n)
  case 0
  then show ?case by simp
next
  case (Suc n)
  show ?case
  proof (cases "i < n")
    case True
    with Suc obtain rest where "filter P [0..<n] = i # rest" by blast
    then show ?thesis by simp
  next
    case False
    with Suc.prems have "i = n" by simp
    moreover from this Suc.prems have "filter P [0..<n] = []" by (simp add: filter_empty_conv)
    ultimately show ?thesis using Suc.prems by simp
  qed
qed

lemma addMaskPlane_free:
  assumes "i < 16" "i \<notin> snd ` set (getMaskPlaneDict m)" "\<forall>j<i. j \<in> snd ` set (getMaskPlaneDict m)"
  shows "addMaskPlane name m = Inr (m\<lparr>getMaskPlaneDict := getMaskPlaneDict m @ [(name, i)]\<rparr>)"
proof -
  from filter_upt_least[of i 16 "\<lambda>i. i \<notin> snd ` set (getMaskPlaneDict m)"] assms
  obtain rest where "filter (\<lambda>i. i \<notin> snd ` set (getMaskPlaneDict m)) [0..<16] = i # rest"
    by auto
  then show ?thesis by (simp add: addMaskPlane_def)
qed

lemma addMaskPlane_full:
  assumes "\<forall>i<16. i \<in> snd ` set (getMaskPlaneDict m)"
  shows "addMaskPlane name m = Inl (RuntimeError ''Max number of planes already used'')"
proof -
  have "filter (\<lambda>i. i \<notin> snd ` set (getMaskPlaneDict m)) [0..<16] = []"
    using assms by (simp add: filter_empty_conv)
  then show ?thesis by (simp add: addMaskPlane_def)
qed

lemma defectListFromMask_nogrow_registry:
  assumes "getPlaneBitMask (getMask (getMaskedImage exposure)) maskName = Inr bitmask"
    and "growFootprints \<le> 0"
  shows "defectListFromMask exposure growFootprints maskName =
     (let satDefectList =
            concat (map (\<lambda>fp. map Defect (footprintToBBoxList fp))
              (makeFootprintSet
                 (map (map (\<lambda>v. of_nat (unat v)))
                    (map (map (\<lambda>v. v AND bitmask)) (getArray (getMask (getMaskedImage exposure)))))
                 (1 / 2)))
      in if ''INTRP'' \<in> fst ` set (getMaskPlaneDict (getMask (getMaskedImage exposure)))
         then Inr (satDefectList, exposure)
         else (case addMaskPlane ''INTRP'' (getMask (getMaskedImage exposure)) of
                 Inl e \<Rightarrow> Inl e
               | Inr mask' \<Rightarrow>
                   Inr (satDefectList,
                        exposure\<lparr>getMaskedImage := (getMaskedImage exposure)\<lparr>getMask := mask'\<rparr>\<rparr>)))"
proof -
  have g: "\<not> growFootprints > 0" using assms(2) by simp
  show ?thesis
    unfolding defectListFromMask_def Let_def assms(1) sum.case if_not_P[OF g]
    by simp
qed

lemma suspectAndBad_array:
  "getArray (getMask (getMaskedImage suspectAndBad)) =
     [[0, 0, 0, 0, 0, 0, 0, 0, 0, 0],
      [0, 128, 0, 0, 0, 0, 0, 0, 0, 0],
      [0, 0, 0, 0, 0, 0, 0, 0, 0, 0],
      [0, 0, 0, 0, 0, 0, 0, 0, 0, 0],
      [0, 0, 0, 0, 0, 0, 0, 0, 0, 0],
      [0, 0, 0, 0, 0, 1, 0, 0, 0, 0],
      [0, 0, 0, 0, 0, 0, 0, 0, 0, 0],
      [0, 0, 0, 0, 0, 0, 0, 0, 0, 0],
      [0, 0, 0, 0, 0, 0, 0, 0, 0, 0],
      [0, 0, 0, 0, 0, 0, 0, 0, 0, 1]]"
  by code_simp

lemma suspectAndBad_dict:
  "getMaskPlaneDict (getMask (getMaskedImage suspectAndBad)) = defaultMaskPlaneDict"
  by (simp add: suspectAndBad_def setMaskPixel_def Let_def oneBadPixel_def blankExposure_def
        makeExposure_def)

lemma suspectAndBad_marked:
  "\<forall>y \<in> set [0..<10]. \<forall>x \<in> set [0..<10].
     (getPixel (getArray (getMask (getMaskedImage suspectAndBad))) x y AND push_bit 0 1 \<noteq> 0)
       = ((x, y) \<in> set [(5, 5), (9, 9)])"
  by code_simp

lemma withMaskPlanes_simps:
  "getMaskPlaneDict (getMask (getMaskedImage (withMaskPlanes planes exposure))) = planes"
  "getArray (getMask (getMaskedImage (withMaskPlanes planes exposure))) =
     getArray (getMask (getMaskedImage exposure))"
  by (simp_all add: withMaskPlanes_def)

lemma lt16_cases: "(i::nat) < 16 \<Longrightarrow> i \<in> {0, 1, 2, 3, 4, 5, 6, 7, 8, 9, 10, 11, 12, 13, 14, 15}"
  by auto arith

lemma oneBadPixel_grown:
  "defectListFromMask oneBadPixel 1 ''BAD'' =
     Inr ([Defect \<lparr>getMinX = 4, getMinY = 4, getMaxX = 6, getMaxY = 4\<rparr>,
           Defect \<lparr>getMinX = 4, getMinY = 5, getMaxX = 6, getMaxY = 5\<rparr>,
           Defect \<lparr>getMinX = 4, getMinY = 6, getMaxX = 6, getMaxY = 6\<rparr>],
          oneBadPixel)"
  by code_simp

text \<open>
  C8, as amended. Called with \<open>growFootprints \<le> 0\<close> for a plane of the registry on a mask
  where no two pixels that carry the plane's bit are neighbours (corners included),
  \<^verbatim>\<open>defectListFromMask\<close> finds one single-pixel defect for each of these pixels and no
  other defect. So a mask with only \<open>(5, 5)\<close> marked \<open>BAD\<close> gives exactly one defect, at
  \<open>(5, 5)\<close>; a second \<open>BAD\<close> pixel away from it gives exactly two; and a pixel that
  carries only another bit, such as \<open>SUSPECT\<close>, is in no defect. The call returns this
  list and leaves the exposure as it was when the registry holds \<^verbatim>\<open>INTRP\<close>; when it
  does not, the call adds \<^verbatim>\<open>INTRP\<close> to the registry at the lowest of the sixteen planes
  that is free and returns the same list, and it raises when none is free. The witness is
  the test's mask, under the default registry, under one without \<^verbatim>\<open>INTRP\<close> and under
  a full one.
\<close>

theorem defectListFromMask_isolated:
  assumes bit: "map_of (getMaskPlaneDict (getMask (getMaskedImage exposure))) maskName = Some b"
    and grow: "growFootprints \<le> 0"
    and dist: "distinct ps"
    and inplane: "\<forall>(x, y) \<in> set ps. hasPixel (getArray (getMask (getMaskedImage exposure))) x y"
    and marked: "\<forall>x y. hasPixel (getArray (getMask (getMaskedImage exposure))) x y \<longrightarrow>
                   (getPixel (getArray (getMask (getMaskedImage exposure))) x y AND push_bit b 1 \<noteq> 0
                      \<longleftrightarrow> (x, y) \<in> set ps)"
    and apart: "\<forall>(x, y) \<in> set ps. \<forall>(x', y') \<in> set ps. (x, y) \<noteq> (x', y') \<longrightarrow>
                  \<not> (x \<le> Suc x' \<and> x' \<le> Suc x \<and> y \<le> Suc y' \<and> y' \<le> Suc y)"
  shows "\<exists>defects.
           length defects = length ps \<and>
           set defects = pixelDefect ` set ps \<and>
           (''INTRP'' \<in> fst ` set (getMaskPlaneDict (getMask (getMaskedImage exposure))) \<longrightarrow>
              defectListFromMask exposure growFootprints maskName = Inr (defects, exposure)) \<and>
           (\<forall>i. ''INTRP'' \<notin> fst ` set (getMaskPlaneDict (getMask (getMaskedImage exposure))) \<and>
                 i < 16 \<and> i \<notin> snd ` set (getMaskPlaneDict (getMask (getMaskedImage exposure))) \<and>
                 (\<forall>j<i. j \<in> snd ` set (getMaskPlaneDict (getMask (getMaskedImage exposure)))) \<longrightarrow>
              defectListFromMask exposure growFootprints maskName =
                Inr (defects,
                     exposure\<lparr>getMaskedImage :=
                       (getMaskedImage exposure)\<lparr>getMask :=
                         (getMask (getMaskedImage exposure))\<lparr>getMaskPlaneDict :=
                           getMaskPlaneDict (getMask (getMaskedImage exposure)) @ [(''INTRP'', i)]\<rparr>\<rparr>\<rparr>)) \<and>
           (''INTRP'' \<notin> fst ` set (getMaskPlaneDict (getMask (getMaskedImage exposure))) \<and>
            (\<forall>i<16. i \<in> snd ` set (getMaskPlaneDict (getMask (getMaskedImage exposure)))) \<longrightarrow>
              defectListFromMask exposure growFootprints maskName =
                Inl (RuntimeError ''Max number of planes already used''))"
proof -
  let ?mask = "getMask (getMaskedImage exposure)"
  let ?arr = "getArray ?mask"
  let ?bitmask = "push_bit b 1 :: 16 word"
  let ?maskimg = "map (map (\<lambda>v. of_nat (unat v) :: rat)) (map (map (\<lambda>v. v AND ?bitmask)) ?arr)"
  let ?bim = "map (map (\<lambda>p. p > 1 / 2)) ?maskimg"
  let ?spans = "planeSpans ?bim"
  have bm: "getPlaneBitMask ?mask maskName = Inr ?bitmask"
    using bit by (simp add: getPlaneBitMask_def)
  have hp: "hasPixel ?bim x y = hasPixel ?arr x y" for x y
    by (simp only: hasPixel_map)
  have gp: "getPixel ?bim x y \<longleftrightarrow> getPixel ?arr x y AND ?bitmask \<noteq> 0" if "hasPixel ?arr x y" for x y
    using that by (simp only: getPixel_map_has hasPixel_map word_detected)
  have inplane': "\<forall>(x, y) \<in> set ps. hasPixel ?bim x y"
    using inplane hp by auto
  have marked': "\<forall>x y. hasPixel ?bim x y \<longrightarrow> (getPixel ?bim x y \<longleftrightarrow> (x, y) \<in> set ps)"
    using marked hp gp by auto
  have spans: "set ?spans = (\<lambda>(x, y). (y, x, x)) ` set ps"
    using inplane' marked' apart by (rule isolated_spans)
  have notouch: "\<forall>s \<in> set ?spans. \<forall>t \<in> set ?spans. \<not> touches s t"
  proof (intro ballI)
    fix s t
    assume "s \<in> set ?spans" "t \<in> set ?spans"
    with spans obtain x y x' y' where
      p: "(x, y) \<in> set ps" "s = (y, x, x)" and q: "(x', y') \<in> set ps" "t = (y', x', x')"
      by auto
    show "\<not> touches s t"
    proof
      assume "touches s t"
      with p q have t: "y = Suc y' \<or> y' = Suc y" "x' \<le> Suc x" "x \<le> Suc x'"
        by (simp_all add: touches_def)
      then have "(x, y) \<noteq> (x', y')" by auto
      with apart p(1) q(1) t show False by fastforce
    qed
  qed
  have fps: "makeFootprintSet ?maskimg (1 / 2) = map (\<lambda>s. [s]) ?spans"
    using notouch by (rule makeFootprintSet_apart)
  let ?defects = "map (\<lambda>s. Defect (spanBBox s)) ?spans"
  have res: "defectListFromMask exposure growFootprints maskName =
     (if ''INTRP'' \<in> fst ` set (getMaskPlaneDict ?mask)
      then Inr (?defects, exposure)
      else (case addMaskPlane ''INTRP'' ?mask of
              Inl e \<Rightarrow> Inl e
            | Inr mask' \<Rightarrow>
                Inr (?defects, exposure\<lparr>getMaskedImage := (getMaskedImage exposure)\<lparr>getMask := mask'\<rparr>\<rparr>)))"
    using defectListFromMask_nogrow_registry[OF bm grow]
    by (simp only: fps single_span_defects Let_def)
  have conv: "(\<lambda>p. Defect (spanBBox ((\<lambda>(x, y). (y, x, x)) p))) = pixelDefect"
    by (auto simp: fun_eq_iff spanBBox_def pixelDefect_def)
  have "set ?defects = (\<lambda>s. Defect (spanBBox s)) ` set ?spans"
    by (simp only: set_map)
  also have "\<dots> = (\<lambda>s. Defect (spanBBox s)) ` ((\<lambda>(x, y). (y, x, x)) ` set ps)"
    by (simp only: spans)
  also have "\<dots> = pixelDefect ` set ps"
    by (simp only: image_image conv)
  finally have sd: "set ?defects = pixelDefect ` set ps" .
  have "distinct ?spans" by (rule planeSpans_distinct)
  then have "length ?spans = card (set ?spans)" by (simp add: distinct_card)
  also have "\<dots> = card ((\<lambda>(x, y). (y, x, x)) ` set ps)" by (simp only: spans)
  also have "\<dots> = card (set ps)"
    by (intro card_image) (auto simp: inj_on_def)
  also have "\<dots> = length ps" using dist by (simp add: distinct_card)
  finally have len: "length ?defects = length ps" by (simp only: length_map)
  have r1: "''INTRP'' \<in> fst ` set (getMaskPlaneDict ?mask) \<longrightarrow>
              defectListFromMask exposure growFootprints maskName = Inr (?defects, exposure)"
  proof
    assume a: "''INTRP'' \<in> fst ` set (getMaskPlaneDict ?mask)"
    show "defectListFromMask exposure growFootprints maskName = Inr (?defects, exposure)"
      by (rule trans[OF res]) (simp only: a if_True)
  qed
  have r2: "\<forall>i. ''INTRP'' \<notin> fst ` set (getMaskPlaneDict ?mask) \<and>
                 i < 16 \<and> i \<notin> snd ` set (getMaskPlaneDict ?mask) \<and>
                 (\<forall>j<i. j \<in> snd ` set (getMaskPlaneDict ?mask)) \<longrightarrow>
              defectListFromMask exposure growFootprints maskName =
                Inr (?defects,
                     exposure\<lparr>getMaskedImage :=
                       (getMaskedImage exposure)\<lparr>getMask :=
                         ?mask\<lparr>getMaskPlaneDict := getMaskPlaneDict ?mask @ [(''INTRP'', i)]\<rparr>\<rparr>\<rparr>)"
  proof (intro allI impI)
    fix i
    assume a: "''INTRP'' \<notin> fst ` set (getMaskPlaneDict ?mask) \<and>
                 i < 16 \<and> i \<notin> snd ` set (getMaskPlaneDict ?mask) \<and>
                 (\<forall>j<i. j \<in> snd ` set (getMaskPlaneDict ?mask))"
    then have n: "''INTRP'' \<notin> fst ` set (getMaskPlaneDict ?mask)" by simp
    from a have am: "addMaskPlane ''INTRP'' ?mask =
                 Inr (?mask\<lparr>getMaskPlaneDict := getMaskPlaneDict ?mask @ [(''INTRP'', i)]\<rparr>)"
      by (intro addMaskPlane_free) simp_all
    show "defectListFromMask exposure growFootprints maskName =
                Inr (?defects,
                     exposure\<lparr>getMaskedImage :=
                       (getMaskedImage exposure)\<lparr>getMask :=
                         ?mask\<lparr>getMaskPlaneDict := getMaskPlaneDict ?mask @ [(''INTRP'', i)]\<rparr>\<rparr>\<rparr>)"
      by (rule trans[OF res]) (simp only: n if_False am sum.case)
  qed
  have r3: "''INTRP'' \<notin> fst ` set (getMaskPlaneDict ?mask) \<and>
            (\<forall>i<16. i \<in> snd ` set (getMaskPlaneDict ?mask)) \<longrightarrow>
              defectListFromMask exposure growFootprints maskName =
                Inl (RuntimeError ''Max number of planes already used'')"
  proof
    assume a: "''INTRP'' \<notin> fst ` set (getMaskPlaneDict ?mask) \<and>
            (\<forall>i<16. i \<in> snd ` set (getMaskPlaneDict ?mask))"
    then have n: "''INTRP'' \<notin> fst ` set (getMaskPlaneDict ?mask)" by simp
    from a have am: "addMaskPlane ''INTRP'' ?mask = Inl (RuntimeError ''Max number of planes already used'')"
      by (intro addMaskPlane_full) simp
    show "defectListFromMask exposure growFootprints maskName =
                Inl (RuntimeError ''Max number of planes already used'')"
      by (rule trans[OF res]) (simp only: n if_False am sum.case)
  qed
  from len sd r1 r2 r3 show ?thesis by blast
qed

theorem defectListFromMask_isolated_witness:
  "(\<exists>defects.
      defectListFromMask suspectAndBad 0 ''BAD'' = Inr (defects, suspectAndBad) \<and>
      length defects = 2 \<and>
      set defects = {pixelDefect (5, 5), pixelDefect (9, 9)}) \<and>
   (\<exists>defects.
      defectListFromMask (withMaskPlanes [(''BAD'', 0), (''SUSPECT'', 7)] suspectAndBad) 0 ''BAD'' =
        Inr (defects, withMaskPlanes [(''BAD'', 0), (''SUSPECT'', 7), (''INTRP'', 1)] suspectAndBad) \<and>
      length defects = 2 \<and>
      set defects = {pixelDefect (5, 5), pixelDefect (9, 9)}) \<and>
   defectListFromMask (withMaskPlanes fullMaskPlaneDict suspectAndBad) 0 ''BAD'' =
     Inl (RuntimeError ''Max number of planes already used'')"
proof -
  let ?arr = "getArray (getMask (getMaskedImage suspectAndBad))"
  have hp: "hasPixel ?arr x y \<longleftrightarrow> y < 10 \<and> x < 10" for x y
  proof -
    have "length ?arr = 10" by (simp add: suspectAndBad_array)
    moreover have "\<forall>r \<in> set ?arr. length r = 10" by (simp add: suspectAndBad_array)
    ultimately show ?thesis by (auto simp: hasPixel_def)
  qed
  have inplane: "\<forall>(x, y) \<in> set [(5, 5), (9, 9)]. hasPixel ?arr x y"
    by (simp add: hp)
  have marked: "\<forall>x y. hasPixel ?arr x y \<longrightarrow>
      (getPixel ?arr x y AND push_bit 0 1 \<noteq> 0 \<longleftrightarrow> (x, y) \<in> set [(5, 5), (9, 9)])"
    using suspectAndBad_marked by (simp only: hp) (simp del: push_bit_of_1)
  have apart: "\<forall>(x, y) \<in> set [(5 :: nat, 5 :: nat), (9, 9)]. \<forall>(x', y') \<in> set [(5, 5), (9, 9)].
      (x, y) \<noteq> (x', y') \<longrightarrow> \<not> (x \<le> Suc x' \<and> x' \<le> Suc x \<and> y \<le> Suc y' \<and> y' \<le> Suc y)"
    by simp
  have dist: "distinct [(5 :: nat, 5 :: nat), (9, 9)]" by simp
  have bit: "map_of (getMaskPlaneDict (getMask (getMaskedImage suspectAndBad))) ''BAD'' = Some 0"
    by (simp add: suspectAndBad_dict defaultMaskPlaneDict_def)
  have intrp: "''INTRP'' \<in> fst ` set (getMaskPlaneDict (getMask (getMaskedImage suspectAndBad)))"
    by (simp add: suspectAndBad_dict defaultMaskPlaneDict_def)
  from defectListFromMask_isolated[OF bit _ dist inplane marked apart, of 0] intrp
  have a: "\<exists>defects.
      defectListFromMask suspectAndBad 0 ''BAD'' = Inr (defects, suspectAndBad) \<and>
      length defects = 2 \<and>
      set defects = {pixelDefect (5, 5), pixelDefect (9, 9)}"
    by (auto simp: numeral_2_eq_2)
  let ?few = "withMaskPlanes [(''BAD'', 0), (''SUSPECT'', 7)] suspectAndBad"
  have bit2: "map_of (getMaskPlaneDict (getMask (getMaskedImage ?few))) ''BAD'' = Some 0"
    by (simp add: withMaskPlanes_simps)
  have inplane2: "\<forall>(x, y) \<in> set [(5, 5), (9, 9)]. hasPixel (getArray (getMask (getMaskedImage ?few))) x y"
    using inplane by (simp only: withMaskPlanes_simps)
  have marked2: "\<forall>x y. hasPixel (getArray (getMask (getMaskedImage ?few))) x y \<longrightarrow>
      (getPixel (getArray (getMask (getMaskedImage ?few))) x y AND push_bit 0 1 \<noteq> 0
         \<longleftrightarrow> (x, y) \<in> set [(5, 5), (9, 9)])"
    using marked by (simp only: withMaskPlanes_simps)
  have free: "''INTRP'' \<notin> fst ` set (getMaskPlaneDict (getMask (getMaskedImage ?few))) \<and>
      (1 :: nat) < 16 \<and> 1 \<notin> snd ` set (getMaskPlaneDict (getMask (getMaskedImage ?few))) \<and>
      (\<forall>j<1. j \<in> snd ` set (getMaskPlaneDict (getMask (getMaskedImage ?few))))"
    by (simp add: withMaskPlanes_simps)
  have upd: "?few\<lparr>getMaskedImage :=
                (getMaskedImage ?few)\<lparr>getMask :=
                  (getMask (getMaskedImage ?few))\<lparr>getMaskPlaneDict :=
                    getMaskPlaneDict (getMask (getMaskedImage ?few)) @ [(''INTRP'', 1)]\<rparr>\<rparr>\<rparr> =
             withMaskPlanes [(''BAD'', 0), (''SUSPECT'', 7), (''INTRP'', 1)] suspectAndBad"
    by (simp add: withMaskPlanes_def)
  from defectListFromMask_isolated[OF bit2 _ dist inplane2 marked2 apart, of 0]
  obtain defects where d: "length defects = length [(5 :: nat, 5 :: nat), (9, 9)]"
      "set defects = pixelDefect ` set [(5, 5), (9, 9)]"
      "\<forall>i. ''INTRP'' \<notin> fst ` set (getMaskPlaneDict (getMask (getMaskedImage ?few))) \<and>
                 i < 16 \<and> i \<notin> snd ` set (getMaskPlaneDict (getMask (getMaskedImage ?few))) \<and>
                 (\<forall>j<i. j \<in> snd ` set (getMaskPlaneDict (getMask (getMaskedImage ?few)))) \<longrightarrow>
              defectListFromMask ?few 0 ''BAD'' =
                Inr (defects,
                     ?few\<lparr>getMaskedImage :=
                       (getMaskedImage ?few)\<lparr>getMask :=
                         (getMask (getMaskedImage ?few))\<lparr>getMaskPlaneDict :=
                           getMaskPlaneDict (getMask (getMaskedImage ?few)) @ [(''INTRP'', i)]\<rparr>\<rparr>\<rparr>)"
    by auto
  from d(3)[rule_format, OF free]
  have "defectListFromMask ?few 0 ''BAD'' =
          Inr (defects, withMaskPlanes [(''BAD'', 0), (''SUSPECT'', 7), (''INTRP'', 1)] suspectAndBad)"
    by (simp only: upd)
  with d(1,2) have b: "\<exists>defects.
      defectListFromMask ?few 0 ''BAD'' =
        Inr (defects, withMaskPlanes [(''BAD'', 0), (''SUSPECT'', 7), (''INTRP'', 1)] suspectAndBad) \<and>
      length defects = 2 \<and>
      set defects = {pixelDefect (5, 5), pixelDefect (9, 9)}"
    by (auto simp: numeral_2_eq_2)
  let ?full = "withMaskPlanes fullMaskPlaneDict suspectAndBad"
  have bit3: "map_of (getMaskPlaneDict (getMask (getMaskedImage ?full))) ''BAD'' = Some 0"
    by (simp add: withMaskPlanes_simps fullMaskPlaneDict_def)
  have inplane3: "\<forall>(x, y) \<in> set [(5, 5), (9, 9)]. hasPixel (getArray (getMask (getMaskedImage ?full))) x y"
    using inplane by (simp only: withMaskPlanes_simps)
  have marked3: "\<forall>x y. hasPixel (getArray (getMask (getMaskedImage ?full))) x y \<longrightarrow>
      (getPixel (getArray (getMask (getMaskedImage ?full))) x y AND push_bit 0 1 \<noteq> 0
         \<longleftrightarrow> (x, y) \<in> set [(5, 5), (9, 9)])"
    using marked by (simp only: withMaskPlanes_simps)
  have nointrp: "''INTRP'' \<notin> fst ` set (getMaskPlaneDict (getMask (getMaskedImage ?full)))"
    by (simp add: withMaskPlanes_simps fullMaskPlaneDict_def)
  have taken: "\<forall>i<16. i \<in> snd ` set (getMaskPlaneDict (getMask (getMaskedImage ?full)))"
  proof (intro allI impI)
    fix i :: nat
    assume "i < 16"
    then have "i \<in> {0, 1, 2, 3, 4, 5, 6, 7, 8, 9, 10, 11, 12, 13, 14, 15}" by (rule lt16_cases)
    then show "i \<in> snd ` set (getMaskPlaneDict (getMask (getMaskedImage ?full)))"
      by (simp add: withMaskPlanes_simps fullMaskPlaneDict_def)
  qed
  from defectListFromMask_isolated[OF bit3 _ dist inplane3 marked3 apart, of 0] nointrp taken
  have c: "defectListFromMask ?full 0 ''BAD'' = Inl (RuntimeError ''Max number of planes already used'')"
    by auto
  from a b c show ?thesis by blast
qed

text \<open>
  The claim C8 as it was stated fails with the default \<open>growFootprints = 1\<close>: the
  footprint of the single \<open>BAD\<close> pixel \<open>(5, 5)\<close> is grown by one pixel before it becomes
  defects, so what comes back is not one defect at \<open>(5, 5)\<close>: the neighbour \<open>(4, 5)\<close>, which
  carries no bit, lies in a defect too.
\<close>

theorem defectListFromMask_grown_counterexample:
  "\<exists>defects.
     defectListFromMask oneBadPixel 1 ''BAD'' = Inr (defects, oneBadPixel) \<and>
     defects \<noteq> [pixelDefect (5, 5)] \<and>
     inDefects defects 4 5"
  by (simp add: oneBadPixel_grown inDefects_def boxContains_def)
subsection \<open>Calibration provenance\<close>

lemma init_simps:
  "detectorName (init i c dn ds di) = dn"
  "detectorSerial (init i c dn ds di) = ds"
  "instrument (init i c dn ds di) = i"
  "calibType (init i c dn ds di) = c"
  "dimensions (init i c dn ds di) = {||}"
  "dataIdList (init i c dn ds di) = []"
  "requiredAttributes (init i c dn ds di) =
     [''_OBSTYPE'', ''_SCHEMA'', ''_VERSION'', ''_detectorName'', ''_detectorSerial'',
      ''_metadata'', ''instrument'', ''calibType'', ''dimensions'', ''dataIdList'']"
  by (simp_all add: init_def Let_def setMetadata_def updateMetadata_def IsrCalib_updateMetadata_def)

lemma init_metadata:
  "metadata (init i c dn ds di) =
     [''OBSTYPE'' \<mapsto> PStr ''IsrProvenance'',
      ''IsrProvenance_SCHEMA'' \<mapsto> PStr ''NO SCHEMA'',
      ''IsrProvenance_VERSION'' \<mapsto> PInt 0,
      ''DETECTOR'' \<mapsto> optStr dn,
      ''DETECTOR_SERIAL'' \<mapsto> optStr ds,
      ''INSTRUME'' \<mapsto> PStr i,
      ''calibType'' \<mapsto> PStr c]"
  by (simp add: init_def Let_def setMetadata_def updateMetadata_def IsrCalib_updateMetadata_def
        OBSTYPE_def SCHEMA_def VERSION_def fun_eq_iff map_add_def)

lemma updateMetadata_fields:
  "detectorName (updateMetadata sd kw s) = detectorName s"
  "detectorSerial (updateMetadata sd kw s) = detectorSerial s"
  "instrument (updateMetadata sd kw s) = instrument s"
  "calibType (updateMetadata sd kw s) = calibType s"
  "dimensions (updateMetadata sd kw s) = dimensions s"
  "dataIdList (updateMetadata sd kw s) = dataIdList s"
  "requiredAttributes (updateMetadata sd kw s) = requiredAttributes s"
  by (simp_all add: updateMetadata_def IsrCalib_updateMetadata_def Let_def)

lemma updateMetadata_None_metadata:
  "metadata (updateMetadata None kw s) =
     metadata s ++ kw ++
       [''DETECTOR'' \<mapsto> optStr (detectorName s),
        ''DETECTOR_SERIAL'' \<mapsto> optStr (detectorSerial s),
        ''INSTRUME'' \<mapsto> PStr (instrument s),
        ''calibType'' \<mapsto> PStr (calibType s)]"
  by (auto simp: updateMetadata_def IsrCalib_updateMetadata_def Let_def fun_eq_iff map_add_def
           split: option.splits)

lemma updateMetadata_Some_metadata:
  "metadata (updateMetadata (Some d) Map.empty s) =
     metadata s ++
       [''CALIBDATE'' \<mapsto> PStr (isoformat d),
        ''CALIB_CREATION_DATE'' \<mapsto> PStr (dateIsoformat d),
        ''CALIB_CREATION_TIME'' \<mapsto> PStr (timeIsoformat d),
        ''DETECTOR'' \<mapsto> optStr (detectorName s),
        ''DETECTOR_SERIAL'' \<mapsto> optStr (detectorSerial s),
        ''INSTRUME'' \<mapsto> PStr (instrument s),
        ''calibType'' \<mapsto> PStr (calibType s)]"
  by (auto simp: updateMetadata_def IsrCalib_updateMetadata_def Let_def fun_eq_iff map_add_def
           split: option.splits)

lemma toDict_simps:
  "fst (toDict now p) =
     \<lparr>dict_metadata = metadata (updateMetadata (Some now) Map.empty p),
      dict_detectorName = detectorName p, dict_detectorSerial = detectorSerial p,
      dict_instrument = instrument p, dict_calibType = calibType p,
      dict_dimensions = sorted_list_of_fset (dimensions p),
      dict_dataIdList = dataIdList p\<rparr>"
  "snd (toDict now p) = updateMetadata (Some now) Map.empty p"
  by (simp_all add: toDict_def Let_def updateMetadata_fields)

lemma eq_standard:
  assumes "requiredAttributes q =
     [''_OBSTYPE'', ''_SCHEMA'', ''_VERSION'', ''_detectorName'', ''_detectorSerial'',
      ''_metadata'', ''instrument'', ''calibType'', ''dimensions'', ''dataIdList'']"
  shows "eq q p = Inr (detectorName q = detectorName p \<and> detectorSerial q = detectorSerial p \<and>
                        metadata q = metadata p \<and> instrument q = instrument p \<and>
                        calibType q = calibType p \<and> dimensions q = dimensions p \<and>
                        dataIdList q = dataIdList p)"
  by (simp add: eq_def assms getattr_def)

lemma fromDict_Inr:
  assumes "''setDate'' \<notin> dom (dict_metadata d)" and "''self'' \<notin> dom (dict_metadata d)"
  shows "fromDict d = Inr
     (updateMetadata None Map.empty
        ((updateMetadata None (dict_metadata d) (init ''unknown'' ''unknown'' None None None))
           \<lparr>detectorName := dict_detectorName d, detectorSerial := dict_detectorSerial d,
            instrument := dict_instrument d, calibType := dict_calibType d,
            dimensions := fset_of_list (dict_dimensions d),
            dataIdList := dict_dataIdList d\<rparr>))"
  using assms by (simp add: fromDict_def Let_def updateMetadata_unpacked_def)

lemma roundtrip_metadata:
  assumes keys: "{''OBSTYPE'', ''IsrProvenance_SCHEMA'', ''IsrProvenance_VERSION''} \<subseteq> dom m"
  shows "[''OBSTYPE'' \<mapsto> PStr ''IsrProvenance'',
          ''IsrProvenance_SCHEMA'' \<mapsto> PStr ''NO SCHEMA'',
          ''IsrProvenance_VERSION'' \<mapsto> PInt 0,
          ''DETECTOR'' \<mapsto> a0, ''DETECTOR_SERIAL'' \<mapsto> b0,
          ''INSTRUME'' \<mapsto> c0, ''calibType'' \<mapsto> d0]
         ++ (m ++ [''CALIBDATE'' \<mapsto> t1, ''CALIB_CREATION_DATE'' \<mapsto> t2,
                   ''CALIB_CREATION_TIME'' \<mapsto> t3,
                   ''DETECTOR'' \<mapsto> a, ''DETECTOR_SERIAL'' \<mapsto> b,
                   ''INSTRUME'' \<mapsto> c, ''calibType'' \<mapsto> d])
         ++ [''DETECTOR'' \<mapsto> a0, ''DETECTOR_SERIAL'' \<mapsto> b0,
             ''INSTRUME'' \<mapsto> c0, ''calibType'' \<mapsto> d0]
         ++ Map.empty
         ++ [''DETECTOR'' \<mapsto> a, ''DETECTOR_SERIAL'' \<mapsto> b,
             ''INSTRUME'' \<mapsto> c, ''calibType'' \<mapsto> d]
       = m ++ [''CALIBDATE'' \<mapsto> t1, ''CALIB_CREATION_DATE'' \<mapsto> t2,
               ''CALIB_CREATION_TIME'' \<mapsto> t3,
               ''DETECTOR'' \<mapsto> a, ''DETECTOR_SERIAL'' \<mapsto> b,
               ''INSTRUME'' \<mapsto> c, ''calibType'' \<mapsto> d]"
proof (rule ext)
  fix k
  from keys obtain v1 v2 v3 where
    "m ''OBSTYPE'' = Some v1" "m ''IsrProvenance_SCHEMA'' = Some v2"
    "m ''IsrProvenance_VERSION'' = Some v3"
    by auto
  then show "([''OBSTYPE'' \<mapsto> PStr ''IsrProvenance'',
          ''IsrProvenance_SCHEMA'' \<mapsto> PStr ''NO SCHEMA'',
          ''IsrProvenance_VERSION'' \<mapsto> PInt 0,
          ''DETECTOR'' \<mapsto> a0, ''DETECTOR_SERIAL'' \<mapsto> b0,
          ''INSTRUME'' \<mapsto> c0, ''calibType'' \<mapsto> d0]
         ++ (m ++ [''CALIBDATE'' \<mapsto> t1, ''CALIB_CREATION_DATE'' \<mapsto> t2,
                   ''CALIB_CREATION_TIME'' \<mapsto> t3,
                   ''DETECTOR'' \<mapsto> a, ''DETECTOR_SERIAL'' \<mapsto> b,
                   ''INSTRUME'' \<mapsto> c, ''calibType'' \<mapsto> d])
         ++ [''DETECTOR'' \<mapsto> a0, ''DETECTOR_SERIAL'' \<mapsto> b0,
             ''INSTRUME'' \<mapsto> c0, ''calibType'' \<mapsto> d0]
         ++ Map.empty
         ++ [''DETECTOR'' \<mapsto> a, ''DETECTOR_SERIAL'' \<mapsto> b,
             ''INSTRUME'' \<mapsto> c, ''calibType'' \<mapsto> d]) k
       = (m ++ [''CALIBDATE'' \<mapsto> t1, ''CALIB_CREATION_DATE'' \<mapsto> t2,
               ''CALIB_CREATION_TIME'' \<mapsto> t3,
               ''DETECTOR'' \<mapsto> a, ''DETECTOR_SERIAL'' \<mapsto> b,
               ''INSTRUME'' \<mapsto> c, ''calibType'' \<mapsto> d]) k"
    by (simp add: map_add_def split: option.splits)
qed

text \<open>
  The three class entries are in the metadata of every object the constructor builds, and
  \<^verbatim>\<open>setMetadata\<close> and \<^verbatim>\<open>updateMetadata\<close> keep them there.
\<close>

lemma fromDataIds_metadata: "metadata (fromDataIds ids s) = metadata s"
  unfolding fromDataIds_def by (induction ids arbitrary: s) simp_all

lemma init_classKeys:
  "{''OBSTYPE'', ''IsrProvenance_SCHEMA'', ''IsrProvenance_VERSION''}
     \<subseteq> dom (metadata (init i c dn ds di))"
  by (simp add: init_metadata)

lemma setMetadata_classKeys:
  "{''OBSTYPE'', ''IsrProvenance_SCHEMA'', ''IsrProvenance_VERSION''}
     \<subseteq> dom (metadata (setMetadata md s))"
  by (simp add: setMetadata_def Let_def OBSTYPE_def)

lemma updateMetadata_classKeys:
  "{''OBSTYPE'', ''IsrProvenance_SCHEMA'', ''IsrProvenance_VERSION''} \<subseteq> dom (metadata s) \<Longrightarrow>
   {''OBSTYPE'', ''IsrProvenance_SCHEMA'', ''IsrProvenance_VERSION''}
     \<subseteq> dom (metadata (updateMetadata sd kw s))"
  by (auto simp: updateMetadata_def IsrCalib_updateMetadata_def Let_def)

text \<open>
  A metadata key named \<^verbatim>\<open>setDate\<close> collides with the parameter of \<^verbatim>\<open>updateMetadata\<close>
  when \<^verbatim>\<open>fromDict\<close> unpacks the metadata into keyword arguments.
\<close>

lemma fromDict_setDate_raises:
  "''self'' \<notin> dom (dict_metadata d) \<Longrightarrow> ''setDate'' \<in> dom (dict_metadata d) \<Longrightarrow>
   fromDict d = Inl (TypeError ''setDate'')"
  by (simp add: fromDict_def Let_def updateMetadata_unpacked_def)

text \<open>
  C10, as amended. For every \<^verbatim>\<open>IsrProvenance\<close> object whose metadata holds the entries
  \<^verbatim>\<open>OBSTYPE\<close>, \<^verbatim>\<open>IsrProvenance_SCHEMA\<close> and \<^verbatim>\<open>IsrProvenance_VERSION\<close> and has no key
  named \<^verbatim>\<open>setDate\<close> or \<^verbatim>\<open>self\<close>, \<^verbatim>\<open>fromDict(p.toDict())\<close> returns an object that
  \<^verbatim>\<open>__eq__\<close> finds equal to \<open>p\<close> as \<^verbatim>\<open>toDict\<close> leaves it, the date stamped on its
  metadata.
\<close>

theorem provenance_roundtrip:
  assumes keys: "{''OBSTYPE'', ''IsrProvenance_SCHEMA'', ''IsrProvenance_VERSION''}
                   \<subseteq> dom (metadata p)"
    and nosetDate: "''setDate'' \<notin> dom (metadata p)"
    and noself: "''self'' \<notin> dom (metadata p)"
  shows "\<exists>q. fromDict (fst (toDict now p)) = Inr q \<and> eq q (snd (toDict now p)) = Inr True"
proof -
  let ?d = "fst (toDict now p)" and ?p' = "snd (toDict now p)"
  have md: "dict_metadata ?d = metadata ?p'"
    by (simp add: toDict_simps)
  have dom': "''setDate'' \<notin> dom (metadata ?p')" "''self'' \<notin> dom (metadata ?p')"
    using nosetDate noself by (auto simp: toDict_simps updateMetadata_Some_metadata)
  let ?q = "updateMetadata None Map.empty
        ((updateMetadata None (dict_metadata ?d) (init ''unknown'' ''unknown'' None None None))
           \<lparr>detectorName := dict_detectorName ?d, detectorSerial := dict_detectorSerial ?d,
            instrument := dict_instrument ?d, calibType := dict_calibType ?d,
            dimensions := fset_of_list (dict_dimensions ?d),
            dataIdList := dict_dataIdList ?d\<rparr>)"
  have q: "fromDict ?d = Inr ?q"
    using dom' md by (intro fromDict_Inr) simp_all
  have req: "requiredAttributes ?q =
     [''_OBSTYPE'', ''_SCHEMA'', ''_VERSION'', ''_detectorName'', ''_detectorSerial'',
      ''_metadata'', ''instrument'', ''calibType'', ''dimensions'', ''dataIdList'']"
    by (simp add: updateMetadata_fields init_simps)
  have fields: "detectorName ?q = detectorName ?p'" "detectorSerial ?q = detectorSerial ?p'"
    "instrument ?q = instrument ?p'" "calibType ?q = calibType ?p'"
    "dimensions ?q = dimensions ?p'" "dataIdList ?q = dataIdList ?p'"
    by (simp_all add: updateMetadata_fields toDict_simps)
  have meta: "metadata ?q = metadata ?p'"
    using roundtrip_metadata[OF keys]
    by (simp add: updateMetadata_None_metadata updateMetadata_fields init_simps init_metadata
          toDict_simps updateMetadata_Some_metadata optStr_def)
  have "eq ?q ?p' = Inr True"
    using fields meta by (simp add: eq_standard[OF req])
  with q show ?thesis by blast
qed

theorem provenance_roundtrip_witness:
  "\<exists>q. fromDict (fst (toDict someDate biasProvenance)) = Inr q \<and>
       eq q (snd (toDict someDate biasProvenance)) = Inr True \<and>
       dimensions q = {|''detector'', ''exposure''|}"
proof -
  have md: "metadata biasProvenance =
      metadata (init ''LATISS'' ''bias'' (Some ''RXX_S00'') (Some ''ITL-3800C-068'') (Some 0))"
    by (simp add: biasProvenance_def fromDataIds_metadata)
  have keys: "{''OBSTYPE'', ''IsrProvenance_SCHEMA'', ''IsrProvenance_VERSION''}
                \<subseteq> dom (metadata biasProvenance)"
    unfolding md by (rule init_classKeys)
  have no: "''setDate'' \<notin> dom (metadata biasProvenance)" "''self'' \<notin> dom (metadata biasProvenance)"
    unfolding md by (simp_all add: init_metadata)
  from provenance_roundtrip[OF keys no, of someDate] obtain q
    where q: "fromDict (fst (toDict someDate biasProvenance)) = Inr q"
      and e: "eq q (snd (toDict someDate biasProvenance)) = Inr True"
    by blast
  have "dimensions biasProvenance = {|''detector'', ''exposure''|}"
    by (auto simp: biasProvenance_def fromDataIds_def init_simps)
  moreover have "dimensions q = dimensions biasProvenance"
    using q no
    by (auto simp: fromDict_def Let_def updateMetadata_unpacked_def toDict_simps
          updateMetadata_fields updateMetadata_Some_metadata split: if_splits)
  ultimately show ?thesis using q e by simp
qed

text \<open>
  The claim C10 as it was stated fails for an object whose \<^verbatim>\<open>OBSTYPE\<close> entry was removed
  from its metadata: the constructor inside \<^verbatim>\<open>fromDict\<close> writes the entry again, so the
  two metadata differ and \<^verbatim>\<open>__eq__\<close> answers \<^verbatim>\<open>False\<close>.
\<close>

theorem provenance_roundtrip_counterexample:
  "\<exists>q. fromDict (fst (toDict someDate strippedProvenance)) = Inr q \<and>
       eq q (snd (toDict someDate strippedProvenance)) = Inr False"
proof -
  let ?p = strippedProvenance
  let ?d = "fst (toDict someDate ?p)" and ?p' = "snd (toDict someDate ?p)"
  have mp: "metadata ?p =
     (metadata (init ''LATISS'' ''bias'' (Some ''RXX_S00'') (Some ''ITL-3800C-068'') (Some 0)))
       (''OBSTYPE'' := None)"
    by (simp add: strippedProvenance_def Let_def)
  have no: "''setDate'' \<notin> dom (dict_metadata ?d)" "''self'' \<notin> dom (dict_metadata ?d)"
    by (simp_all add: toDict_simps updateMetadata_Some_metadata mp init_metadata)
  let ?q = "updateMetadata None Map.empty
        ((updateMetadata None (dict_metadata ?d) (init ''unknown'' ''unknown'' None None None))
           \<lparr>detectorName := dict_detectorName ?d, detectorSerial := dict_detectorSerial ?d,
            instrument := dict_instrument ?d, calibType := dict_calibType ?d,
            dimensions := fset_of_list (dict_dimensions ?d),
            dataIdList := dict_dataIdList ?d\<rparr>)"
  have q: "fromDict ?d = Inr ?q" using no by (rule fromDict_Inr)
  have req: "requiredAttributes ?q =
     [''_OBSTYPE'', ''_SCHEMA'', ''_VERSION'', ''_detectorName'', ''_detectorSerial'',
      ''_metadata'', ''instrument'', ''calibType'', ''dimensions'', ''dataIdList'']"
    by (simp add: updateMetadata_fields init_simps)
  have a: "metadata ?p' ''OBSTYPE'' = None"
    by (simp add: toDict_simps updateMetadata_Some_metadata mp)
  have b: "metadata ?q ''OBSTYPE'' = Some (PStr ''IsrProvenance'')"
    by (simp add: updateMetadata_None_metadata updateMetadata_fields init_metadata toDict_simps
          updateMetadata_Some_metadata mp map_add_def)
  from a b have "metadata ?q \<noteq> metadata ?p'" by auto
  then have "eq ?q ?p' = Inr False" by (simp add: eq_standard[OF req])
  with q show ?thesis by blast
qed

text \<open>
  C9. Fringe and pupil correction never return normally, whatever the exposure.
  \<^verbatim>\<open>fringeCorrection\<close> raises the "not implemented" \<open>LsstException\<close>; \<^verbatim>\<open>pupilCorrection\<close>
  raises \<open>NameError\<close> instead of it.
\<close>

theorem notImplemented_raise:
  "fringeCorrection exposure fringe = Inl (LsstException ''ipIsr.fringCorrection not implemented'')
   \<and> pupilCorrection exposure pupil = Inl (NameError ''stageName'')"
  by (simp add: fringeCorrection_def pupilCorrection_def)

end
